theory Spec2Isabelle
  imports Complex_Main
begin

section \<open>The persistent store of the booking server\<close>

text \<open>
  The server (\<^verbatim>\<open>src/server/index.js\<close>) keeps its data in document collections.
  A collection is modelled as a list in natural (insertion) order; the identifier of a
  document is its position in the list. A JavaScript number is modelled by the
  rational it denotes (every finite double is one; no \<open>NaN\<close>, no infinities); the
  counters that are only ever set to 0 and incremented (promo usage, OTP attempts)
  are integers. Dates are milliseconds since the epoch, and every
  request handler as a function from the request, the clock and the store to a
  response and the store it leaves behind.
\<close>

type_synonym 'a response = "(nat \<times> string) + 'a"
  \<comment> \<open>\<open>Inl (http_status, error_code)\<close> for \<open>res.status(..).json({error: ..})\<close>\<close>

record profile =
  phone :: string
  full_name :: string
  email :: "string option"
  role :: string
  wallet_balance :: rat
  phone_verified :: bool
  email_verified :: bool
  id_verified :: bool
  background_check_status :: string
  skills_verified :: bool
  skills :: "nat list"
  location :: "string option"
  is_available :: bool
  max_capacity :: rat
  current_jobs :: rat
  rating :: rat
  experience_years :: rat
  approval_status :: string

record booking =
  customer_id :: nat
  service_id :: nat
  employee_id :: "nat option"
  status :: string
  booking_date :: "int option"
  booking_time :: string
  total_price :: rat
  base_price :: rat
  addon_price :: rat
  discount_amount :: rat
  platform_fee :: rat
  wallet_amount :: rat
  payment_status :: string
  payment_method :: string
  customer_pincode :: "string option"
  address_pincode :: "string option"
  assigned_at :: "int option"
  accepted_at :: "int option"
  reached_at :: "int option"
  started_at :: "int option"
  completed_at :: "int option"
  cancelled_at :: "int option"
  cancellation_reason :: "string option"
  cancelled_by :: "string option"

record promo =
  code :: string
  promo_is_active :: bool
  min_order_value :: rat
  valid_from :: "int option"
  valid_until :: "int option"
  usage_count :: int
  max_usage :: "int option"

record slot =
  slot_service_id :: nat
  slot_date :: int
  time_slot :: string
  total_capacity :: rat
  booked_count :: rat
  slot_is_available :: bool

record wallet_transaction =
  user_id :: nat
  amount :: rat
  transaction_type :: string
  description :: string
  tx_booking_id :: "nat option"

record otp =
  otp_phone :: string
  code_hash :: string
  purpose :: string
  expires_at :: int
  attempts :: int
  last_sent_at :: "int option"
  otp_created_at :: int

record area =
  pincodes :: "string list"
  area_is_active :: bool

record db =
  profiles :: "profile list"
  bookings :: "booking list"
  promos :: "promo list"
  slots :: "slot list"
  wallet_transactions :: "wallet_transaction list"
  otps :: "otp list"
  areas :: "area list"

text \<open>\<open>Model.findOne(filter)\<close>: the first document in natural order that matches.\<close>

fun find_from :: "nat \<Rightarrow> ('a \<Rightarrow> bool) \<Rightarrow> 'a list \<Rightarrow> (nat \<times> 'a) option" where
  "find_from n P [] = None"
| "find_from n P (x # xs) = (if P x then Some (n, x) else find_from (Suc n) P xs)"

definition findOne :: "('a \<Rightarrow> bool) \<Rightarrow> 'a list \<Rightarrow> (nat \<times> 'a) option" where
  "findOne P xs = find_from 0 P xs"

text \<open>\<open>Model.findById(id)\<close>.\<close>

definition findById :: "nat \<Rightarrow> 'a list \<Rightarrow> 'a option" where
  "findById i xs = (if i < length xs then Some (xs ! i) else None)"

text \<open>\<open>Model.deleteOne({_id})\<close>.\<close>

definition deleteAt :: "nat \<Rightarrow> 'a list \<Rightarrow> 'a list" where
  "deleteAt i xs = take i xs @ drop (Suc i) xs"

section \<open>OTP authenticator\<close>

text \<open>
  \<open>OTP.findOne({ phone }).sort({ created_at: -1 })\<close>: among the challenges of the phone,
  the one created last (the first of them in natural order when several share the
  creation time).
\<close>

fun latest_from :: "nat \<Rightarrow> string \<Rightarrow> otp list \<Rightarrow> (nat \<times> otp) option \<Rightarrow> (nat \<times> otp) option" where
  "latest_from n p [] best = best"
| "latest_from n p (c # cs) best =
     latest_from (Suc n) p cs
       (if otp_phone c = p then
          (case best of
             None \<Rightarrow> Some (n, c)
           | Some (j, b) \<Rightarrow> if otp_created_at b < otp_created_at c then Some (n, c) else Some (j, b))
        else best)"

definition latest_otp :: "string \<Rightarrow> otp list \<Rightarrow> (nat \<times> otp) option" where
  "latest_otp p cs = latest_from 0 p cs None"

text \<open>
  \<open>POST /auth/request-otp\<close>. The generated code is an input (it is random in the
  source), \<open>hashCode\<close> is SHA-256 in the source and a parameter here. Dispatching the
  code never changes the outcome and is left out.
\<close>

definition request_otp :: "(string \<Rightarrow> string) \<Rightarrow> string \<Rightarrow> string \<Rightarrow> int \<Rightarrow> db \<Rightarrow> unit response \<times> db" where
  "request_otp hashCode ph otp_code now d =
     (let existing = latest_otp ph (otps d);
          limited = (case existing of
                       None \<Rightarrow> False
                     | Some (i, e) \<Rightarrow>
                         (case last_sent_at e of None \<Rightarrow> False | Some t \<Rightarrow> now - t < 45000))
      in if limited then (Inl (429, ''otp_rate_limited''), d)
         else
           (let h = hashCode otp_code;
                exp = now + 5 * 60 * 1000
            in case findOne (\<lambda>c. otp_phone c = ph) (otps d) of
                 Some (i, c) \<Rightarrow>
                   (Inr (), d\<lparr>otps := (otps d)[i := c\<lparr>otp_phone := ph, code_hash := h,
                       expires_at := exp, attempts := 0, last_sent_at := Some now,
                       purpose := ''login''\<rparr>]\<rparr>)
               | None \<Rightarrow>
                   (Inr (), d\<lparr>otps := otps d @ [\<lparr>otp_phone = ph, code_hash = h,
                       purpose = ''login'', expires_at = exp, attempts = 0,
                       last_sent_at = Some now, otp_created_at = now\<rparr>]\<rparr>)))"

text \<open>The profile \<open>Profile.create\<close> stores for a new user: the schema defaults.\<close>

definition new_profile :: "string \<Rightarrow> string \<Rightarrow> string option \<Rightarrow> string \<Rightarrow> profile" where
  "new_profile ph nm em rl =
     \<lparr>phone = ph, full_name = nm, email = em, role = rl, wallet_balance = 0,
      phone_verified = True, email_verified = (em \<noteq> None), id_verified = False,
      background_check_status = ''pending'', skills_verified = False, skills = [],
      location = None, is_available = True, max_capacity = 5, current_jobs = 0,
      rating = 0, experience_years = 0, approval_status = ''pending''\<rparr>"

text \<open>
  \<open>POST /auth/verify-otp\<close>, after the validation middleware. \<open>nm\<close> and \<open>em\<close> are the
  optional \<open>full_name\<close> and \<open>email\<close> (absent when missing or empty), \<open>rl\<close> is
  \<open>req.body.role || 'customer'\<close>. A success answers the profile's identifier and
  \<open>needsProfileCompletion\<close>.
\<close>

definition verify_otp ::
  "(string \<Rightarrow> string) \<Rightarrow> string \<Rightarrow> string \<Rightarrow> string option \<Rightarrow> string option \<Rightarrow> string \<Rightarrow> int \<Rightarrow> db
     \<Rightarrow> (nat \<times> bool) response \<times> db" where
  "verify_otp hashCode ph otp_code nm em rl now d =
     (case latest_otp ph (otps d) of
        None \<Rightarrow> (Inl (400, ''otp_not_found''), d)
      | Some (i, c) \<Rightarrow>
          if expires_at c < now then (Inl (400, ''otp_expired''), d)
          else if attempts c \<ge> 5 then (Inl (429, ''otp_attempts_exceeded''), d)
          else if hashCode otp_code \<noteq> code_hash c then
            (Inl (400, ''otp_invalid''), d\<lparr>otps := (otps d)[i := c\<lparr>attempts := attempts c + 1\<rparr>]\<rparr>)
          else
            (let d1 = d\<lparr>otps := deleteAt i (otps d)\<rparr>
             in case findOne (\<lambda>p. phone p = ph) (profiles d1) of
                  None \<Rightarrow>
                    (let p = new_profile ph (case nm of None \<Rightarrow> ''Customer'' | Some n \<Rightarrow> n) em rl
                     in (Inr (length (profiles d1), full_name p = ''Customer'' \<or> email p = None),
                         d1\<lparr>profiles := profiles d1 @ [p]\<rparr>))
                | Some (j, p) \<Rightarrow>
                    (let p1 = p\<lparr>phone_verified := True\<rparr>;
                         p2 = (case em of None \<Rightarrow> p1
                               | Some e \<Rightarrow> p1\<lparr>email := Some e, email_verified := True\<rparr>);
                         p3 = (case nm of None \<Rightarrow> p2
                               | Some n \<Rightarrow> if n \<noteq> ''Customer'' then p2\<lparr>full_name := n\<rparr> else p2)
                     in (Inr (j, False), d1\<lparr>profiles := (profiles d1)[j := p3]\<rparr>))))"

text \<open>A run of verification requests for one phone: \<open>(code, time)\<close> pairs, in order.\<close>

fun verify_all ::
  "(string \<Rightarrow> string) \<Rightarrow> string \<Rightarrow> (string \<times> int) list \<Rightarrow> db \<Rightarrow> (nat \<times> bool) response list \<times> db" where
  "verify_all hashCode ph [] d = ([], d)"
| "verify_all hashCode ph ((c, t) # reqs) d =
     (let (r, d1) = verify_otp hashCode ph c None None ''customer'' t d;
          (rs, d2) = verify_all hashCode ph reqs d1
      in (r # rs, d2))"

section \<open>JavaScript helpers\<close>

text \<open>
  \<open>Number(x) || 0\<close>: the request field after \<open>Number\<close> is a number or \<open>NaN\<close>
  (\<open>None\<close>); \<open>NaN\<close> and \<open>0\<close> are falsy and give \<open>0\<close>.
\<close>

definition num_or0 :: "rat option \<Rightarrow> rat" where
  "num_or0 x = (case x of None \<Rightarrow> 0 | Some r \<Rightarrow> r)"

text \<open>\<open>a || b\<close> on optional strings: a missing or empty string is falsy.\<close>

definition str_or :: "string option \<Rightarrow> string option \<Rightarrow> string option" where
  "str_or a b = (case a of None \<Rightarrow> b | Some s \<Rightarrow> if s = [] then b else Some s)"

definition str_or_default :: "string option \<Rightarrow> string \<Rightarrow> string" where
  "str_or_default a dflt = (case a of None \<Rightarrow> dflt | Some s \<Rightarrow> if s = [] then dflt else s)"

text \<open>
  \<open>trim\<close> and \<open>toUpperCase\<close>, on ASCII text: a lower-case letter (codes 97 to 122)
  loses the bit of value 32.
\<close>

definition is_space :: "char \<Rightarrow> bool" where
  "is_space c = (c \<in> set [CHR '' '', CHR 0x09, CHR 0x0A, CHR 0x0B, CHR 0x0C, CHR 0x0D])"

definition trim :: "string \<Rightarrow> string" where
  "trim s = rev (dropWhile is_space (rev (dropWhile is_space s)))"

definition upper_char :: "char \<Rightarrow> char" where
  "upper_char c =
     (let n = (of_char c :: nat)
      in if 97 \<le> n \<and> n \<le> 122
         then (case c of Char b0 b1 b2 b3 b4 b5 b6 b7 \<Rightarrow> Char b0 b1 b2 b3 b4 False b6 b7)
         else c)"

definition toUpperCase :: "string \<Rightarrow> string" where
  "toUpperCase s = map upper_char s"

definition ascii_text :: "string \<Rightarrow> bool" where
  "ascii_text s = list_all (\<lambda>c. (of_char c :: nat) < 128) s"

text \<open>
  \<open>sanitizeInput\<close>: \<open>str.trim().replace(/[<>]/g, '').substring(0, 1000)\<close>.
\<close>

definition sanitizeInput :: "string \<Rightarrow> string" where
  "sanitizeInput str = take 1000 (filter (\<lambda>c. c \<noteq> CHR ''<'' \<and> c \<noteq> CHR ''>'') (trim str))"

text \<open>
  Where the outcome of a request depends on the result of floating-point
  arithmetic (the score of a worker, the amount tolerance of a payment), the
  arithmetic of the machine is a parameter: its four operations, each taking
  and giving the values of doubles. \<open>exact_arith\<close> is arithmetic without rounding.
\<close>

record arith =
  fadd :: "rat \<Rightarrow> rat \<Rightarrow> rat"
  fsub :: "rat \<Rightarrow> rat \<Rightarrow> rat"
  fmul :: "rat \<Rightarrow> rat \<Rightarrow> rat"
  fdiv :: "rat \<Rightarrow> rat \<Rightarrow> rat"

definition exact_arith :: arith where
  "exact_arith = \<lparr>fadd = (+), fsub = (-), fmul = (*), fdiv = (/)\<rparr>"


text \<open>The double nearest to \<open>0.01\<close>: \<open>5764607523034235 / 2^59\<close>.\<close>

definition double_0_01 :: rat where
  "double_0_01 = 5764607523034235 / 576460752303423488"

section \<open>Slots\<close>

text \<open>
  \<open>new Date(d.setHours(0, 0, 0, 0))\<close> and \<open>new Date(d.setHours(23, 59, 59, 999))\<close> on the
  same date object: the first and the last millisecond of the day (the server's
  local time is taken as UTC).
\<close>

definition start_of_day :: "int \<Rightarrow> int" where
  "start_of_day t = t - t mod 86400000"

definition end_of_day :: "int \<Rightarrow> int" where
  "end_of_day t = start_of_day t + 86399999"

definition timeSlotMap :: "string \<Rightarrow> string" where
  "timeSlotMap t =
     (if t = ''morning'' then ''09:00-12:00''
      else if t = ''afternoon'' then ''12:00-15:00''
      else if t = ''evening'' then ''15:00-18:00''
      else t)"

text \<open>
  \<open>Slot.findOne({ service_id, date: { $gte: start, $lt: end }, time_slot })\<close>.
\<close>

definition find_slot :: "nat \<Rightarrow> int \<Rightarrow> string \<Rightarrow> slot list \<Rightarrow> (nat \<times> slot) option" where
  "find_slot svc date tm sl =
     findOne (\<lambda>s. slot_service_id s = svc \<and> start_of_day date \<le> slot_date s
                 \<and> slot_date s < end_of_day date \<and> time_slot s = timeSlotMap tm) sl"

text \<open>The increment of \<open>POST /bookings\<close> and of the new slot of a reschedule.\<close>

definition reserve_slot :: "slot \<Rightarrow> slot" where
  "reserve_slot s =
     (let s1 = s\<lparr>booked_count := booked_count s + 1\<rparr>
      in if booked_count s1 \<ge> total_capacity s1 then s1\<lparr>slot_is_available := False\<rparr> else s1)"

text \<open>
  The decrement of a cancellation and of the old slot of a reschedule:
  \<open>if (slot && slot.booked_count > 0) { slot.booked_count -= 1; slot.is_available = true; }\<close>
\<close>

definition release_slot :: "nat \<Rightarrow> int option \<Rightarrow> string \<Rightarrow> slot list \<Rightarrow> slot list" where
  "release_slot svc date tm sl =
     (case date of
        None \<Rightarrow> sl
      | Some t \<Rightarrow>
          if tm = [] then sl
          else (case find_slot svc t tm sl of
                  None \<Rightarrow> sl
                | Some (i, s) \<Rightarrow>
                    if booked_count s > 0
                    then sl[i := s\<lparr>booked_count := booked_count s - 1, slot_is_available := True\<rparr>]
                    else sl))"

section \<open>Worker load\<close>

text \<open>
  \<open>Booking.countDocuments({ employee_id, status: { $in: statuses } })\<close> followed by
  \<open>Profile.findByIdAndUpdate(employee_id, { current_jobs })\<close>.
\<close>

definition countDocuments :: "nat \<Rightarrow> string list \<Rightarrow> booking list \<Rightarrow> nat" where
  "countDocuments w statuses bs =
     length (filter (\<lambda>b. employee_id b = Some w \<and> status b \<in> set statuses) bs)"

definition set_current_jobs :: "nat \<Rightarrow> rat \<Rightarrow> profile list \<Rightarrow> profile list" where
  "set_current_jobs w n ps = (if w < length ps then ps[w := (ps ! w)\<lparr>current_jobs := n\<rparr>] else ps)"

definition recount_jobs :: "nat \<Rightarrow> string list \<Rightarrow> db \<Rightarrow> db" where
  "recount_jobs w statuses d =
     d\<lparr>profiles := set_current_jobs w (of_nat (countDocuments w statuses (bookings d))) (profiles d)\<rparr>"

section \<open>Booking creation\<close>

text \<open>
  The body of \<open>POST /bookings\<close> after the validation middleware. The four price
  components are the values \<open>Number(...)\<close> gives; \<open>req_total_price\<close> is the total the
  client submits. \<open>req_payment_status\<close> and \<open>req_payment_method\<close> reach the stored
  document through \<open>...req.body\<close>.
\<close>

record booking_body =
  req_service_id :: nat
  req_booking_date :: int
  req_booking_time :: string
  req_customer_id :: nat
  req_base_price :: "rat option"
  req_addon_price :: "rat option"
  req_discount_amount :: "rat option"
  req_wallet_amount :: "rat option"
  req_total_price :: rat
  req_promo_code :: "string option"
  req_customer_pincode :: "string option"
  req_address_pincode :: "string option"
  req_payment_status :: "string option"
  req_payment_method :: "string option"

definition subtotalAfterDiscount :: "booking_body \<Rightarrow> rat" where
  "subtotalAfterDiscount r =
     max 0 (num_or0 (req_base_price r) + num_or0 (req_addon_price r)
            - num_or0 (req_discount_amount r))"

definition computedTotal :: "booking_body \<Rightarrow> rat" where
  "computedTotal r = max 0 (subtotalAfterDiscount r - num_or0 (req_wallet_amount r))"

text \<open>The document \<open>Booking.create\<close> stores.\<close>

definition created_booking :: "booking_body \<Rightarrow> booking" where
  "created_booking r =
     \<lparr>customer_id = req_customer_id r, service_id = req_service_id r, employee_id = None,
      status = ''pending'', booking_date = Some (req_booking_date r),
      booking_time = req_booking_time r, total_price = computedTotal r,
      base_price = num_or0 (req_base_price r), addon_price = num_or0 (req_addon_price r),
      discount_amount = num_or0 (req_discount_amount r), platform_fee = 0,
      wallet_amount = num_or0 (req_wallet_amount r),
      payment_status = (case req_payment_status r of None \<Rightarrow> ''unpaid'' | Some p \<Rightarrow> p),
      payment_method = (case req_payment_method r of None \<Rightarrow> ''online'' | Some p \<Rightarrow> p),
      customer_pincode = str_or (req_customer_pincode r) (req_address_pincode r),
      address_pincode = req_address_pincode r,
      assigned_at = None, accepted_at = None, reached_at = None, started_at = None,
      completed_at = None, cancelled_at = None, cancellation_reason = None,
      cancelled_by = None\<rparr>"

text \<open>
  The wallet payment of the created booking \<open>bid\<close>. \<open>cp\<close> is the customer's
  profile: the handler reads it again here, and nothing has written to it since the
  checks. The booking object the handler changes and saves is the one it created.
\<close>

definition pay_from_wallet :: "booking_body \<Rightarrow> profile \<Rightarrow> nat \<Rightarrow> db \<Rightarrow> db" where
  "pay_from_wallet r cp bid d =
     (let w = num_or0 (req_wallet_amount r); cid = req_customer_id r
      in if w > 0 then
           (let newBalance = wallet_balance cp - w;
                d1 = d\<lparr>profiles := (profiles d)[cid := cp\<lparr>wallet_balance := newBalance\<rparr>]\<rparr>;
                d2 = d1\<lparr>wallet_transactions := wallet_transactions d1 @
                        [\<lparr>user_id = cid, amount = w, transaction_type = ''debit'',
                          description = ''Payment for booking'', tx_booking_id = Some bid\<rparr>]\<rparr>
            in if computedTotal r = 0
               then d2\<lparr>bookings := (bookings d2)[bid :=
                      (created_booking r)\<lparr>payment_status := ''paid'', payment_method := ''wallet''\<rparr>]\<rparr>
               else d2)
         else d)"

text \<open>
  \<open>if (req.body.promo_code) { promo = PromoCode.findOne({ code: upper-cased, trimmed });
  if (promo) { promo.usage_count = (promo.usage_count || 0) + 1; } }\<close>
\<close>

definition count_promo_use :: "string option \<Rightarrow> promo list \<Rightarrow> promo list" where
  "count_promo_use pc ps =
     (case pc of
        None \<Rightarrow> ps
      | Some c \<Rightarrow>
          if c = [] then ps
          else (case findOne (\<lambda>p. code p = trim (toUpperCase c)) ps of
                  None \<Rightarrow> ps
                | Some (i, p) \<Rightarrow> ps[i := p\<lparr>usage_count := usage_count p + 1\<rparr>]))"

text \<open>
  The writes of \<open>POST /bookings\<close>, in the order of the source: the booking, the
  wallet payment, the slot found before the checks, the promo code.
\<close>

definition commit_booking :: "booking_body \<Rightarrow> profile \<Rightarrow> db \<Rightarrow> db" where
  "commit_booking r cp d =
     (let sl = find_slot (req_service_id r) (req_booking_date r) (req_booking_time r) (slots d);
          bid = length (bookings d);
          d1 = d\<lparr>bookings := bookings d @ [created_booking r]\<rparr>;
          d2 = pay_from_wallet r cp bid d1;
          d3 = (case sl of
                  None \<Rightarrow> d2
                | Some (i, s) \<Rightarrow> d2\<lparr>slots := (slots d2)[i := reserve_slot s]\<rparr>)
      in d3\<lparr>promos := count_promo_use (req_promo_code r) (promos d3)\<rparr>)"

text \<open>
  \<open>POST /bookings\<close>, after the validation middleware (\<open>service_id\<close> and
  \<open>booking_date\<close> are present). A success answers the identifier of the new booking.
  The handler reads the customer's profile again before the wallet checks; nothing
  is written in between, so the model uses the profile it already holds.
\<close>

definition create_booking :: "booking_body \<Rightarrow> db \<Rightarrow> nat response \<times> db" where
  "create_booking r d =
     (if req_booking_time r = [] then (Inl (400, ''missing_required_fields''), d)
      else case findById (req_customer_id r) (profiles d) of
        None \<Rightarrow> (Inl (404, ''customer_not_found''), d)
      | Some cp \<Rightarrow>
          if \<not> phone_verified cp then (Inl (403, ''phone_not_verified''), d)
          else
            (let sl = find_slot (req_service_id r) (req_booking_date r) (req_booking_time r) (slots d);
                 w = num_or0 (req_wallet_amount r)
             in if (case sl of None \<Rightarrow> False | Some (i, s) \<Rightarrow> booked_count s \<ge> total_capacity s)
                then (Inl (400, ''slot_unavailable''), d)
                else if w > 0 \<and> w > wallet_balance cp
                then (Inl (400, ''insufficient_wallet_balance''), d)
                else if w > 0 \<and> w > subtotalAfterDiscount r
                then (Inl (400, ''invalid_wallet_amount''), d)
                else (Inr (length (bookings d)), commit_booking r cp d)))"

section \<open>Cancellation and reschedule\<close>

text \<open>
  \<open>PATCH /bookings/:id/cancel\<close>. The slot is released and the worker's jobs are
  counted before \<open>booking.save()\<close>, so the count reads the stored bookings. The
  schema restricts \<open>cancelled_by\<close> to three values; with another value \<open>save\<close>
  rejects the document and the handler answers 500.
\<close>

definition cancel_booking ::
  "nat \<Rightarrow> string option \<Rightarrow> string option \<Rightarrow> int \<Rightarrow> db \<Rightarrow> booking response \<times> db" where
  "cancel_booking bid reason who now d =
     (case findById bid (bookings d) of
        None \<Rightarrow> (Inl (404, ''not_found''), d)
      | Some b \<Rightarrow>
          if status b = ''completed'' then (Inl (400, ''cannot_cancel_completed''), d)
          else if status b = ''cancelled'' then (Inl (400, ''already_cancelled''), d)
          else
            (let b1 = b\<lparr>status := ''cancelled'', cancelled_at := Some now,
                        cancellation_reason := Some (str_or_default reason ''No reason provided''),
                        cancelled_by := Some (str_or_default who ''customer'')\<rparr>;
                 d1 = d\<lparr>slots := release_slot (service_id b) (booking_date b) (booking_time b) (slots d)\<rparr>;
                 d2 = (case employee_id b of
                         None \<Rightarrow> d1
                       | Some w \<Rightarrow> recount_jobs w [''assigned'', ''in_progress''] d1)
             in if str_or_default who ''customer'' \<in> set [''customer'', ''admin'', ''worker'']
                then (Inr b1, d2\<lparr>bookings := (bookings d2)[bid := b1]\<rparr>)
                else (Inl (500, ''cancel_error''), d2)))"

text \<open>
  \<open>isServiceable(pincode)\<close>: some active area lists the trimmed pincode; without any
  active area the default pincodes decide.
\<close>

definition DEFAULT_SERVICEABLE_PINCODES :: "string list" where
  "DEFAULT_SERVICEABLE_PINCODES = [''273001'', ''273002'', ''273003'', ''273004'', ''273005'']"

definition isServiceable :: "string option \<Rightarrow> area list \<Rightarrow> bool" where
  "isServiceable pincode ars =
     (case pincode of
        None \<Rightarrow> False
      | Some p \<Rightarrow>
          if p = [] then False
          else (let active = filter area_is_active ars
                in if list_ex (\<lambda>a. trim p \<in> set (pincodes a)) active then True
                   else if active = [] then trim p \<in> set DEFAULT_SERVICEABLE_PINCODES
                   else False))"

text \<open>
  \<open>PATCH /bookings/:id/reschedule\<close>. The old slot is released first; the new slot is
  looked up and checked afterwards. The stored date is the date object after both
  \<open>setHours\<close> calls, the last millisecond of the new day.
\<close>

definition reschedule_booking :: "nat \<Rightarrow> int \<Rightarrow> string \<Rightarrow> db \<Rightarrow> booking response \<times> db" where
  "reschedule_booking bid new_date new_time d =
     (case findById bid (bookings d) of
        None \<Rightarrow> (Inl (404, ''not_found''), d)
      | Some b \<Rightarrow>
          if status b = ''completed'' then (Inl (400, ''cannot_reschedule_completed''), d)
          else if status b = ''cancelled'' then (Inl (400, ''cannot_reschedule_cancelled''), d)
          else if \<not> isServiceable (str_or (customer_pincode b) (address_pincode b)) (areas d)
          then (Inl (400, ''service_not_available''), d)
          else
            (let d1 = d\<lparr>slots := release_slot (service_id b) (booking_date b) (booking_time b) (slots d)\<rparr>;
                 newSlot = find_slot (service_id b) new_date new_time (slots d1)
             in if (case newSlot of None \<Rightarrow> False
                    | Some (i, s) \<Rightarrow> booked_count s \<ge> total_capacity s)
                then (Inl (400, ''slot_unavailable''), d1)
                else
                  (let b1 = b\<lparr>booking_date := Some (end_of_day new_date), booking_time := new_time,
                              status := (if status b = ''assigned'' then ''pending'' else status b)\<rparr>;
                       d2 = (case newSlot of
                               None \<Rightarrow> d1
                             | Some (i, s) \<Rightarrow> d1\<lparr>slots := (slots d1)[i := reserve_slot s]\<rparr>)
                   in (Inr b1, d2\<lparr>bookings := (bookings d2)[bid := b1]\<rparr>))))"

section \<open>Wallet ledger\<close>

text \<open>
  \<open>POST /wallet/transactions\<close> (admin). \<open>amt\<close> is \<open>Number(amount)\<close>, \<open>None\<close> when the
  field is missing or not a number; a missing description is the empty string. The
  transaction stores the sanitized description; the schema requires it, so
  \<open>WalletTransaction.create\<close> rejects an empty one and the handler answers 500
  before the balance is written.
\<close>

definition add_wallet_transaction ::
  "nat \<Rightarrow> rat option \<Rightarrow> string \<Rightarrow> string \<Rightarrow> nat option \<Rightarrow> db \<Rightarrow> wallet_transaction response \<times> db" where
  "add_wallet_transaction uid amt ttype descr bk d =
     (if amt = None \<or> amt = Some 0 \<or> ttype = [] \<or> descr = []
      then (Inl (400, ''validation_failed''), d)
      else if ttype \<notin> set [''credit'', ''debit'', ''refund'']
      then (Inl (400, ''validation_failed''), d)
      else if num_or0 amt \<le> 0 then (Inl (400, ''validation_failed''), d)
      else case findById uid (profiles d) of
        None \<Rightarrow> (Inl (404, ''user_not_found''), d)
      | Some p \<Rightarrow>
          (let a = num_or0 amt;
               newBalance = (if ttype = ''credit'' then wallet_balance p + a
                             else wallet_balance p - a)
           in if ttype \<noteq> ''credit'' \<and> newBalance < 0
              then (Inl (400, ''insufficient_balance''), d)
              else if sanitizeInput descr = [] then (Inl (500, ''server_error''), d)
              else
                (let t = \<lparr>user_id = uid, amount = a, transaction_type = ttype,
                          description = sanitizeInput descr, tx_booking_id = bk\<rparr>
                 in (Inr t, d\<lparr>wallet_transactions := wallet_transactions d @ [t],
                              profiles := (profiles d)[uid := p\<lparr>wallet_balance := newBalance\<rparr>]\<rparr>))))"

section \<open>Promo codes\<close>

text \<open>
  \<open>GET /promo/validate\<close>. \<open>orderValue\<close> is \<open>subtotal ? Number(subtotal) : 0\<close>, \<open>None\<close>
  for \<open>NaN\<close> (every comparison with \<open>NaN\<close> is false). A \<open>max_usage\<close> of \<open>0\<close> is
  falsy and sets no limit. The handler writes nothing.
\<close>

definition validate_promo :: "string option \<Rightarrow> rat option \<Rightarrow> int \<Rightarrow> db \<Rightarrow> promo response" where
  "validate_promo pc orderValue now d =
     (case pc of
        None \<Rightarrow> Inl (400, ''code_required'')
      | Some c \<Rightarrow>
          if c = [] \<or> trim c = [] then Inl (400, ''code_required'')
          else (case findOne (\<lambda>p. code p = trim (toUpperCase c) \<and> promo_is_active p) (promos d) of
                  None \<Rightarrow> Inl (404, ''invalid_code'')
                | Some (i, p) \<Rightarrow>
                    if (case valid_until p of None \<Rightarrow> False | Some t \<Rightarrow> t < now)
                    then Inl (400, ''expired'')
                    else if (case valid_from p of None \<Rightarrow> False | Some t \<Rightarrow> t > now)
                    then Inl (400, ''not_yet_valid'')
                    else if (case orderValue of None \<Rightarrow> False | Some v \<Rightarrow> v < min_order_value p)
                    then Inl (400, ''min_order_value'')
                    else if (case max_usage p of None \<Rightarrow> False
                             | Some m \<Rightarrow> m \<noteq> 0 \<and> usage_count p \<ge> m)
                    then Inl (400, ''usage_limit_exceeded'')
                    else Inr p))"

section \<open>Booking lifecycle\<close>

text \<open>The statuses the booking schema documents.\<close>

definition lifecycle_states :: "string list" where
  "lifecycle_states = [''pending'', ''assigned'', ''accepted'', ''reached'', ''in_progress'',
     ''completed'', ''cancelled'']"

definition active_statuses :: "string list" where
  "active_statuses = [''assigned'', ''accepted'', ''reached'', ''in_progress'']"

text \<open>
  After \<open>.populate('employee_id', ...)\<close> the field is the worker's document, or null
  when no such profile exists.
\<close>

definition populated_employee :: "booking \<Rightarrow> db \<Rightarrow> nat option" where
  "populated_employee b d =
     (case employee_id b of
        None \<Rightarrow> None
      | Some w \<Rightarrow> if w < length (profiles d) then Some w else None)"

text \<open>The timestamp \<open>PATCH /bookings/:id/status\<close> adds for the requested status.\<close>

definition stamp_status :: "string \<Rightarrow> int \<Rightarrow> booking \<Rightarrow> booking" where
  "stamp_status st now b =
     (if st = ''accepted'' then b\<lparr>accepted_at := Some now\<rparr>
      else if st = ''reached'' then b\<lparr>reached_at := Some now\<rparr>
      else if st = ''in_progress'' then b\<lparr>started_at := Some now\<rparr>
      else if st = ''completed'' then b\<lparr>completed_at := Some now\<rparr>
      else b)"

text \<open>Cash on delivery is paid when the work is completed.\<close>

definition settle_cod :: "booking \<Rightarrow> booking" where
  "settle_cod b =
     (if payment_method b = ''cod'' \<and> payment_status b = ''pending''
      then b\<lparr>payment_status := ''paid''\<rparr> else b)"

text \<open>
  \<open>PATCH /bookings/:id/status\<close>: the requested status is written whatever the
  current one is. Photos and notifications are left out.
\<close>

definition update_status :: "nat \<Rightarrow> string \<Rightarrow> int \<Rightarrow> db \<Rightarrow> booking response \<times> db" where
  "update_status bid st now d =
     (case findById bid (bookings d) of
        None \<Rightarrow> (Inl (404, ''not_found''), d)
      | Some b \<Rightarrow>
          (let b1 = stamp_status st now (b\<lparr>status := st\<rparr>);
               b2 = (if st = ''completed'' then b1\<lparr>payment_status := payment_status (settle_cod b)\<rparr>
                     else b1);
               d1 = d\<lparr>bookings := (bookings d)[bid := b2]\<rparr>
           in (Inr b2, case populated_employee b2 d1 of
                         None \<Rightarrow> d1
                       | Some w \<Rightarrow> recount_jobs w active_statuses d1)))"

text \<open>
  \<open>POST /bookings/:id/accept\<close>, \<open>mark-reached\<close> and \<open>start-work\<close> share one shape: the
  status to set and the timestamp to fill.
\<close>

definition worker_step :: "string \<Rightarrow> nat \<Rightarrow> int \<Rightarrow> db \<Rightarrow> booking response \<times> db" where
  "worker_step st bid now d =
     (case findById bid (bookings d) of
        None \<Rightarrow> (Inl (404, ''not_found''), d)
      | Some b \<Rightarrow>
          if status b \<in> set [''cancelled'', ''completed'']
          then (Inl (400, ''invalid_status''), d)
          else (let b1 = stamp_status st now (b\<lparr>status := st\<rparr>)
                in (Inr b1, d\<lparr>bookings := (bookings d)[bid := b1]\<rparr>)))"

definition accept_booking :: "nat \<Rightarrow> int \<Rightarrow> db \<Rightarrow> booking response \<times> db" where
  "accept_booking = worker_step ''accepted''"

definition mark_reached :: "nat \<Rightarrow> int \<Rightarrow> db \<Rightarrow> booking response \<times> db" where
  "mark_reached = worker_step ''reached''"

definition start_work :: "nat \<Rightarrow> int \<Rightarrow> db \<Rightarrow> booking response \<times> db" where
  "start_work = worker_step ''in_progress''"

text \<open>\<open>POST /bookings/:id/complete\<close>.\<close>

definition complete_booking :: "nat \<Rightarrow> int \<Rightarrow> db \<Rightarrow> booking response \<times> db" where
  "complete_booking bid now d =
     (case findById bid (bookings d) of
        None \<Rightarrow> (Inl (404, ''not_found''), d)
      | Some b \<Rightarrow>
          if status b \<in> set [''cancelled'']
          then (Inl (400, ''invalid_status''), d)
          else (let b1 = settle_cod (b\<lparr>status := ''completed'', completed_at := Some now\<rparr>);
                    d1 = d\<lparr>bookings := (bookings d)[bid := b1]\<rparr>
                in (Inr b1, case populated_employee b1 d1 of
                              None \<Rightarrow> d1
                            | Some w \<Rightarrow> recount_jobs w active_statuses d1)))"

section \<open>Worker matching and assignment\<close>

text \<open>The filter of \<open>Profile.find\<close> in auto-assign.\<close>

definition eligible :: "nat \<Rightarrow> profile \<Rightarrow> bool" where
  "eligible serviceId w =
     (role w \<in> set [''employee'', ''manager'', ''lead'']
      \<and> is_available w \<and> id_verified w \<and> skills_verified w
      \<and> background_check_status w = ''approved''
      \<and> approval_status w = ''approved''
      \<and> (serviceId \<in> set (skills w) \<or> skills w = [])
      \<and> current_jobs w < max_capacity w)"

text \<open>
  The score, as the code computes it: three products and a difference, summed
  from the left.
\<close>

definition priority :: "arith \<Rightarrow> string \<Rightarrow> profile \<Rightarrow> rat" where
  "priority ar customerLocation w =
     (let locationMatch = (if location w = Some customerLocation then 100 else 0);
          ratingScore = fmul ar (rating w) 10;
          experienceScore = fmul ar (experience_years w) 5;
          workloadScore = fmul ar (fsub ar (max_capacity w) (current_jobs w)) 2
      in fadd ar (fadd ar (fadd ar locationMatch ratingScore) experienceScore) workloadScore)"

text \<open>
  \<open>workersWithPriority.sort((a, b) => b.priority - a.priority)\<close>: a stable sort,
  highest priority first. Workers travel with their identifiers.
\<close>

fun insert_by_priority :: "arith \<Rightarrow> nat \<times> rat \<Rightarrow> (nat \<times> rat) list \<Rightarrow> (nat \<times> rat) list" where
  "insert_by_priority ar x [] = [x]"
| "insert_by_priority ar x (y # ys) =
     (if fsub ar (snd y) (snd x) > 0 then y # insert_by_priority ar x ys else x # y # ys)"

fun sort_by_priority :: "arith \<Rightarrow> (nat \<times> rat) list \<Rightarrow> (nat \<times> rat) list" where
  "sort_by_priority ar [] = []"
| "sort_by_priority ar (x # xs) = insert_by_priority ar x (sort_by_priority ar xs)"

fun eligible_from :: "nat \<Rightarrow> nat \<Rightarrow> profile list \<Rightarrow> (nat \<times> profile) list" where
  "eligible_from n serviceId [] = []"
| "eligible_from n serviceId (p # ps) =
     (if eligible serviceId p then (n, p) # eligible_from (Suc n) serviceId ps
      else eligible_from (Suc n) serviceId ps)"

definition eligible_workers :: "nat \<Rightarrow> profile list \<Rightarrow> (nat \<times> profile) list" where
  "eligible_workers serviceId ps = eligible_from 0 serviceId ps"

definition customerLocation :: "booking \<Rightarrow> string" where
  "customerLocation b = str_or_default (str_or (customer_pincode b) (address_pincode b)) []"

text \<open>\<open>PATCH /bookings/:id/auto-assign\<close>, behind the admin gate.\<close>

definition auto_assign :: "arith \<Rightarrow> nat \<Rightarrow> int \<Rightarrow> db \<Rightarrow> booking response \<times> db" where
  "auto_assign ar bid now d =
     (case findById bid (bookings d) of
        None \<Rightarrow> (Inl (404, ''not_found''), d)
      | Some b \<Rightarrow>
          if employee_id b \<noteq> None then (Inl (400, ''already_assigned''), d)
          else
            (let workers = eligible_workers (service_id b) (profiles d)
             in if length workers = 0 then (Inl (404, ''no_eligible_workers''), d)
                else
                  (let workersWithPriority =
                         map (\<lambda>(i, w). (i, priority ar (customerLocation b) w)) workers;
                       bestWorker = fst (hd (sort_by_priority ar workersWithPriority));
                       b1 = b\<lparr>employee_id := Some bestWorker, status := ''assigned'',
                              assigned_at := Some now\<rparr>;
                       d1 = d\<lparr>bookings := (bookings d)[bid := b1]\<rparr>
                   in (Inr b1, recount_jobs bestWorker [''assigned'', ''in_progress''] d1))))"

text \<open>\<open>PATCH /bookings/:id/assign\<close>, behind the admin gate.\<close>

definition assign_booking :: "nat \<Rightarrow> nat option \<Rightarrow> int \<Rightarrow> db \<Rightarrow> booking response \<times> db" where
  "assign_booking bid emp now d =
     (case emp of
        None \<Rightarrow> (Inl (400, ''employee_id_required''), d)
      | Some e \<Rightarrow>
          (case findById e (profiles d) of
             None \<Rightarrow> (Inl (404, ''worker_not_found''), d)
           | Some worker \<Rightarrow>
               if \<not> id_verified worker \<or> \<not> skills_verified worker
                  \<or> background_check_status worker \<noteq> ''approved''
                  \<or> approval_status worker \<noteq> ''approved''
               then (Inl (400, ''worker_not_verified''), d)
               else (case findById bid (bookings d) of
                       None \<Rightarrow> (Inl (404, ''not_found''), d)
                     | Some b \<Rightarrow>
                         (let b1 = b\<lparr>employee_id := Some e, status := ''assigned'',
                                     assigned_at := Some now\<rparr>;
                              d1 = d\<lparr>bookings := (bookings d)[bid := b1]\<rparr>
                          in (Inr b1, recount_jobs e [''assigned'', ''in_progress''] d1)))))"

section \<open>Online payments\<close>

text \<open>
  The payment gateway and the process environment: whether the Razorpay client was
  created, the two secrets, HMAC-SHA256 as a function of key and text, and
  \<open>razorpay.payments.fetch\<close>, which answers the status and the amount in paise of a
  payment or throws (\<open>None\<close>).
\<close>

record gateway =
  razorpay :: bool
  RAZORPAY_KEY_SECRET :: string
  RAZORPAY_WEBHOOK_SECRET :: string
  createHmac :: "string \<Rightarrow> string \<Rightarrow> string"
  payments_fetch :: "string \<Rightarrow> (string \<times> rat) option"

text \<open>
  \<open>POST /payments/verify\<close>. A success answers the paid amount. The division by
  100, the difference and the constant \<open>0.01\<close> are the machine's. The handler also
  sets \<open>payment_id\<close> on the document, a path the booking schema does not have; it
  is not stored.
\<close>

definition verify_payment ::
  "arith \<Rightarrow> gateway \<Rightarrow> string \<Rightarrow> string \<Rightarrow> string \<Rightarrow> nat \<Rightarrow> db \<Rightarrow> rat response \<times> db" where
  "verify_payment ar g razorpay_order_id razorpay_payment_id razorpay_signature bid d =
     (if \<not> razorpay g then (Inl (503, ''payment_service_unavailable''), d)
      else case findById bid (bookings d) of
        None \<Rightarrow> (Inl (404, ''booking_not_found''), d)
      | Some b \<Rightarrow>
          if createHmac g (RAZORPAY_KEY_SECRET g) (razorpay_order_id @ ''|'' @ razorpay_payment_id)
               \<noteq> razorpay_signature
          then (Inl (400, ''invalid_signature''), d)
          else (case payments_fetch g razorpay_payment_id of
                  None \<Rightarrow> (Inl (500, ''payment_verification_error''), d)
                | Some (pstatus, pamount) \<Rightarrow>
                    if pstatus \<noteq> ''captured'' \<and> pstatus \<noteq> ''authorized''
                    then (Inl (400, ''payment_not_captured''), d)
                    else
                      (let paidAmount = fdiv ar pamount 100
                       in if \<bar>fsub ar paidAmount (total_price b)\<bar> > double_0_01
                          then (Inl (400, ''amount_mismatch''), d)
                          else (Inr paidAmount,
                                d\<lparr>bookings := (bookings d)[bid :=
                                     b\<lparr>payment_status := ''paid'', status := ''confirmed''\<rparr>]\<rparr>))))"

text \<open>
  \<open>POST /payments/webhook\<close>. \<open>app.use(express.json())\<close> runs before every route, so
  the route's \<open>express.raw\<close> finds the body already read and \<open>req.body\<close> is what
  \<open>express.json\<close> left: an object (every JSON object), an array, or nothing for
  a request that is not JSON. The text the handler signs and parses is
  \<open>req.body.toString()\<close>: \<open>[object Object]\<close> for an object, the joined elements
  for an array; without a body the call throws and the handler answers 500.
\<close>

datatype request_body =
  NoBody
| ObjectBody
| ArrayBody string  \<comment> \<open>the array's \<open>toString()\<close>\<close>

definition body_toString :: "request_body \<Rightarrow> string option" where
  "body_toString rb =
     (case rb of
        NoBody \<Rightarrow> None
      | ObjectBody \<Rightarrow> Some ''[object Object]''
      | ArrayBody t \<Rightarrow> Some t)"

text \<open>
  The event is \<open>JSON.parse\<close> of that text: \<open>None\<close> when it throws, as it does on
  \<open>[object Object]\<close>, which is not JSON; on other texts the parser is a parameter.
  The handler reads the payment from the field \<open>payment\<close> of
  \<open>payload.payment.entity\<close>; where that field is missing, reading its \<open>notes\<close>
  throws and the handler answers 500.
\<close>

record webhook_payment =
  wh_notes_booking_id :: "nat option"

record webhook_event =
  eventType :: string
  entity_payment :: "webhook_payment option"

definition JSON_parse :: "(string \<Rightarrow> webhook_event option) \<Rightarrow> string \<Rightarrow> webhook_event option" where
  "JSON_parse parser t = (if t = ''[object Object]'' then None else parser t)"

definition payments_webhook ::
  "gateway \<Rightarrow> (string \<Rightarrow> webhook_event option) \<Rightarrow> string option \<Rightarrow> request_body \<Rightarrow> db
     \<Rightarrow> unit response \<times> db" where
  "payments_webhook g parser signature rb d =
     (if \<not> razorpay g then (Inl (503, ''payment_service_unavailable''), d)
      else if RAZORPAY_WEBHOOK_SECRET g = [] then (Inl (400, ''webhook_not_configured''), d)
      else case body_toString rb of
        None \<Rightarrow> (Inl (500, ''webhook_error''), d)
      | Some text \<Rightarrow>
      if Some (createHmac g (RAZORPAY_WEBHOOK_SECRET g) text) \<noteq> signature
      then (Inl (400, ''invalid_signature''), d)
      else case JSON_parse parser text of
        None \<Rightarrow> (Inl (500, ''webhook_error''), d)
      | Some e \<Rightarrow>
          if eventType e = ''payment.captured'' then
            (case entity_payment e of
               None \<Rightarrow> (Inl (500, ''webhook_error''), d)
             | Some p \<Rightarrow>
                 (case wh_notes_booking_id p of
                    None \<Rightarrow> (Inr (), d)
                  | Some bid \<Rightarrow>
                      (case findById bid (bookings d) of
                         None \<Rightarrow> (Inr (), d)
                       | Some b \<Rightarrow>
                           (Inr (), d\<lparr>bookings := (bookings d)[bid :=
                              b\<lparr>payment_status := ''paid'', status := ''confirmed''\<rparr>]\<rparr>))))
          else if eventType e = ''payment.failed'' then
            (case entity_payment e of
               None \<Rightarrow> (Inl (500, ''webhook_error''), d)
             | Some p \<Rightarrow>
                 (case wh_notes_booking_id p of
                    None \<Rightarrow> (Inr (), d)
                  | Some bid \<Rightarrow>
                      (case findById bid (bookings d) of
                         None \<Rightarrow> (Inr (), d)
                       | Some b \<Rightarrow>
                           (Inr (), d\<lparr>bookings := (bookings d)[bid :=
                              b\<lparr>payment_status := ''pending''\<rparr>]\<rparr>))))
          else (Inr (), d))"

section \<open>Runs of requests\<close>





text \<open>
  The requests whose handlers look at the current status before they write: accept,
  mark-reached, start-work, complete, cancel and reschedule. A run pairs each
  request with the time it is served.
\<close>

datatype guarded_request =
  Accept nat
| MarkReached nat
| StartWork nat
| Complete nat
| Cancel nat "string option" "string option"
| Reschedule nat int string

fun serve_guarded :: "guarded_request \<Rightarrow> int \<Rightarrow> db \<Rightarrow> db" where
  "serve_guarded (Accept t) now d = snd (accept_booking t now d)"
| "serve_guarded (MarkReached t) now d = snd (mark_reached t now d)"
| "serve_guarded (StartWork t) now d = snd (start_work t now d)"
| "serve_guarded (Complete t) now d = snd (complete_booking t now d)"
| "serve_guarded (Cancel t reason who) now d = snd (cancel_booking t reason who now d)"
| "serve_guarded (Reschedule t new_date new_time) now d =
     snd (reschedule_booking t new_date new_time d)"

fun run_guarded :: "(guarded_request \<times> int) list \<Rightarrow> db \<Rightarrow> db" where
  "run_guarded [] d = d"
| "run_guarded ((q, now) # qs) d = run_guarded qs (serve_guarded q now d)"

section \<open>Sample data\<close>

definition empty_db :: db where
  "empty_db = \<lparr>profiles = [], bookings = [], promos = [], slots = [],
     wallet_transactions = [], otps = [], areas = []\<rparr>"

definition sample_customer :: "rat \<Rightarrow> profile" where
  "sample_customer bal = (new_profile ''9999999999'' ''Asha'' None ''customer'')\<lparr>wallet_balance := bal\<rparr>"

definition sample_worker :: "string \<Rightarrow> rat \<Rightarrow> rat \<Rightarrow> profile" where
  "sample_worker loc rt jobs =
     (new_profile ''8888888888'' ''Ravi'' None ''employee'')\<lparr>id_verified := True,
        skills_verified := True, background_check_status := ''approved'',
        approval_status := ''approved'', location := Some loc, rating := rt,
        current_jobs := jobs\<rparr>"

definition sample_body :: booking_body where
  "sample_body = \<lparr>req_service_id = 7, req_booking_date = 90000000, req_booking_time = ''morning'',
     req_customer_id = 0, req_base_price = Some 500, req_addon_price = Some 100,
     req_discount_amount = Some 50, req_wallet_amount = None, req_total_price = 1,
     req_promo_code = None, req_customer_pincode = Some ''273001'', req_address_pincode = None,
     req_payment_status = None, req_payment_method = None\<rparr>"

definition sample_booking :: "string \<Rightarrow> nat option \<Rightarrow> booking" where
  "sample_booking st emp = (created_booking sample_body)\<lparr>status := st, employee_id := emp\<rparr>"

definition sample_slot :: "string \<Rightarrow> rat \<Rightarrow> rat \<Rightarrow> slot" where
  "sample_slot ts cap n = \<lparr>slot_service_id = 7, slot_date = 86400000, time_slot = ts,
     total_capacity = cap, booked_count = n, slot_is_available = (n < cap)\<rparr>"

definition sample_promo :: "int \<Rightarrow> int option \<Rightarrow> promo" where
  "sample_promo n m = \<lparr>code = ''SAVE10'', promo_is_active = True, min_order_value = 0,
     valid_from = None, valid_until = None, usage_count = n, max_usage = m\<rparr>"

definition sample_gateway :: gateway where
  "sample_gateway = \<lparr>razorpay = True, RAZORPAY_KEY_SECRET = ''k1'', RAZORPAY_WEBHOOK_SECRET = ''k2'',
     createHmac = (\<lambda>k t. k @ t), payments_fetch = (\<lambda>p. Some (''captured'', 55000))\<rparr>"


definition sample_otp :: "int \<Rightarrow> otp" where
  "sample_otp n = \<lparr>otp_phone = ''9999999999'', code_hash = ''123456'', purpose = ''login'',
     expires_at = 300000, attempts = n, last_sent_at = Some 0, otp_created_at = 0\<rparr>"

section \<open>Properties: store lookups\<close>

lemma find_from_Some:
  "find_from n P xs = Some (i, x) \<Longrightarrow> \<exists>k. i = n + k \<and> k < length xs \<and> xs ! k = x \<and> P x"
proof (induction xs arbitrary: n)
  case Nil
  then show ?case by simp
next
  case (Cons y ys)
  show ?case
  proof (cases "P y")
    case True
    with Cons.prems show ?thesis by auto
  next
    case False
    with Cons.prems have "find_from (Suc n) P ys = Some (i, x)" by simp
    from Cons.IH [OF this] obtain k where "i = Suc n + k" "k < length ys" "ys ! k = x" "P x"
      by blast
    then have "i = n + Suc k \<and> Suc k < length (y # ys) \<and> (y # ys) ! Suc k = x \<and> P x"
      by simp
    then show ?thesis by blast
  qed
qed

lemma findOne_Some:
  "findOne P xs = Some (i, x) \<Longrightarrow> i < length xs \<and> xs ! i = x \<and> P x"
  using find_from_Some [of 0 P xs i x] by (auto simp: findOne_def)

lemma latest_from_Some:
  "latest_from n p cs best = Some (i, c) \<Longrightarrow>
     best = Some (i, c) \<or> (\<exists>k. i = n + k \<and> k < length cs \<and> cs ! k = c \<and> otp_phone c = p)"
proof (induction cs arbitrary: n best)
  case Nil
  then show ?case by simp
next
  case (Cons y ys)
  let ?b = "if otp_phone y = p then
          (case best of
             None \<Rightarrow> Some (n, y)
           | Some (j, b) \<Rightarrow> if otp_created_at b < otp_created_at y then Some (n, y) else Some (j, b))
        else best"
  from Cons.prems have "latest_from (Suc n) p ys ?b = Some (i, c)" by simp
  from Cons.IH [OF this] show ?case
  proof
    assume "?b = Some (i, c)"
    then have "best = Some (i, c) \<or> (i = n + 0 \<and> (y # ys) ! 0 = c \<and> otp_phone c = p)"
      by (auto split: if_splits option.splits)
    then show ?thesis by auto
  next
    assume "\<exists>k. i = Suc n + k \<and> k < length ys \<and> ys ! k = c \<and> otp_phone c = p"
    then obtain k where "i = Suc n + k" "k < length ys" "ys ! k = c" "otp_phone c = p"
      by blast
    then have "i = n + Suc k \<and> Suc k < length (y # ys) \<and> (y # ys) ! Suc k = c \<and> otp_phone c = p"
      by simp
    then show ?thesis by blast
  qed
qed

lemma latest_otp_Some:
  "latest_otp p cs = Some (i, c) \<Longrightarrow> i < length cs \<and> cs ! i = c \<and> otp_phone c = p"
  using latest_from_Some [of 0 p cs None i c] by (auto simp: latest_otp_def)

lemma set_deleteAt: "set (deleteAt i xs) \<subseteq> set xs"
  unfolding deleteAt_def using set_take_subset [of i xs] set_drop_subset [of "Suc i" xs] by auto

lemma verify_otp_exceeded:
  "latest_otp ph (otps d) = Some (i, c) \<Longrightarrow> \<not> expires_at c < now \<Longrightarrow> 5 \<le> attempts c \<Longrightarrow>
   verify_otp H ph x nm em rl now d = (Inl (429, ''otp_attempts_exceeded''), d)"
  by (simp add: verify_otp_def)

lemma findById_Some: "findById i xs = Some x \<Longrightarrow> i < length xs \<and> xs ! i = x"
  by (simp add: findById_def split: if_splits)

lemma list_all_update:
  "list_all P xs \<Longrightarrow> P x \<Longrightarrow> list_all P (xs[i := x])"
  unfolding list_all_iff using set_update_subset_insert [of xs i x] by blast

section \<open>Properties: OTP authenticator\<close>

lemma verify_all_exceeded:
  "latest_otp ph (otps d) = Some (i, c) \<Longrightarrow> 5 \<le> attempts c \<Longrightarrow>
   \<forall>(x, t) \<in> set reqs. \<not> expires_at c < t \<Longrightarrow>
   verify_all H ph reqs d = (replicate (length reqs) (Inl (429, ''otp_attempts_exceeded'')), d)"
  by (induction reqs) (auto simp: verify_otp_exceeded)

lemma attempts_update:
  assumes "\<forall>c \<in> set cs. attempts c \<le> 5" and "attempts c' \<le> 5"
  shows "\<forall>c \<in> set (cs[i := c']). attempts c \<le> 5"
proof
  fix c assume "c \<in> set (cs[i := c'])"
  then have "c = c' \<or> c \<in> set cs"
    using set_update_subset_insert [of cs i c'] by blast
  with assms show "attempts c \<le> 5" by blast
qed

lemma attempts_delete:
  assumes "\<forall>c \<in> set cs. attempts c \<le> 5"
  shows "\<forall>c \<in> set (deleteAt i cs). attempts c \<le> 5"
  using assms set_deleteAt [of i cs] by blast

lemma verify_otp_attempts_le:
  assumes inv: "\<forall>c \<in> set (otps d). attempts c \<le> 5"
  shows "\<forall>c \<in> set (otps (snd (verify_otp H ph x nm em rl now d))). attempts c \<le> 5"
proof (cases "latest_otp ph (otps d)")
  case None
  with inv show ?thesis by (simp add: verify_otp_def)
next
  case (Some a)
  obtain i c where "a = (i, c)" by (cases a)
  with Some have L: "latest_otp ph (otps d) = Some (i, c)" by simp
  consider (e) "expires_at c < now" | (x) "\<not> expires_at c < now" "5 \<le> attempts c"
    | (m) "\<not> expires_at c < now" "attempts c < 5" "H x \<noteq> code_hash c"
    | (s) "\<not> expires_at c < now" "attempts c < 5" "H x = code_hash c"
    by linarith
  then show ?thesis
  proof cases
    case e
    with L inv show ?thesis by (simp add: verify_otp_def)
  next
    case x
    with L inv show ?thesis by (simp add: verify_otp_def)
  next
    case m
    then have "attempts (c\<lparr>attempts := attempts c + 1\<rparr>) \<le> 5" by simp
    from attempts_update [OF inv this, of i] L m show ?thesis
      by (simp add: verify_otp_def)
  next
    case s
    from s L have eq: "otps (snd (verify_otp H ph x nm em rl now d)) = deleteAt i (otps d)"
      by (simp add: verify_otp_def Let_def split: option.splits prod.splits)
    show ?thesis unfolding eq by (rule attempts_delete [OF inv])
  qed
qed

lemma request_otp_attempts_le:
  assumes inv: "\<forall>c \<in> set (otps d). attempts c \<le> 5"
  shows "\<forall>c \<in> set (otps (snd (request_otp H ph x now d))). attempts c \<le> 5"
proof (cases "findOne (\<lambda>c. otp_phone c = ph) (otps d)")
  case None
  let ?c = "\<lparr>otp_phone = ph, code_hash = H x, purpose = ''login'', expires_at = now + 5 * 60 * 1000,
     attempts = 0, last_sent_at = Some now, otp_created_at = now\<rparr>"
  from None have "otps (snd (request_otp H ph x now d)) = otps d
      \<or> otps (snd (request_otp H ph x now d)) = otps d @ [?c]"
    by (simp add: request_otp_def Let_def)
  with inv show ?thesis by auto
next
  case (Some a)
  obtain i c where a: "a = (i, c)" by (cases a)
  let ?c = "c\<lparr>otp_phone := ph, code_hash := H x, expires_at := now + 5 * 60 * 1000, attempts := 0,
     last_sent_at := Some now, purpose := ''login''\<rparr>"
  from Some a have "otps (snd (request_otp H ph x now d)) = otps d
      \<or> otps (snd (request_otp H ph x now d)) = (otps d)[i := ?c]"
    by (simp add: request_otp_def Let_def)
  moreover have "attempts ?c \<le> 5" by simp
  ultimately show ?thesis using inv attempts_update [OF inv, of ?c i] by auto
qed

lemma verify_otp_mismatch:
  assumes "latest_otp ph (otps d) = Some (i, c)" and "\<not> expires_at c < now"
    and "attempts c < 5" and "H x \<noteq> code_hash c"
  shows "verify_otp H ph x nm em rl now d =
           (Inl (400, ''otp_invalid''), d\<lparr>otps := (otps d)[i := c\<lparr>attempts := attempts c + 1\<rparr>]\<rparr>)"
  using assms by (simp add: verify_otp_def)

text \<open>
  C5. When the latest challenge of the phone is not expired and has \<open>attempts \<ge> 5\<close>,
  verification answers \<open>otp_attempts_exceeded\<close> for every submitted code (also the one
  whose hash is stored) and leaves the store as it is, so every later attempt before the
  expiry fails in the same way. A hash mismatch with \<open>attempts < 5\<close> stores
  \<open>attempts + 1\<close> in that challenge, and neither a verification nor a request for a
  new challenge takes a store whose challenges all have \<open>attempts \<le> 5\<close> to one where
  a challenge has more.
\<close>

theorem otp_attempts_exceeded_terminal:
  "(latest_otp ph (otps d) = Some (i, c) \<and> \<not> expires_at c < now \<and> 5 \<le> attempts c \<longrightarrow>
      verify_otp H ph x nm em rl now d = (Inl (429, ''otp_attempts_exceeded''), d))
   \<and> (latest_otp ph (otps d) = Some (i, c) \<and> 5 \<le> attempts c
        \<and> (\<forall>(y, t) \<in> set reqs. \<not> expires_at c < t) \<longrightarrow>
      verify_all H ph reqs d =
        (replicate (length reqs) (Inl (429, ''otp_attempts_exceeded'')), d))
   \<and> (latest_otp ph (otps d) = Some (i, c) \<and> \<not> expires_at c < now \<and> attempts c < 5
        \<and> H x \<noteq> code_hash c \<longrightarrow>
      verify_otp H ph x nm em rl now d =
        (Inl (400, ''otp_invalid''), d\<lparr>otps := (otps d)[i := c\<lparr>attempts := attempts c + 1\<rparr>]\<rparr>)
      \<and> i < length (otps d) \<and> otps d ! i = c)
   \<and> (list_all (\<lambda>c'. attempts c' \<le> 5) (otps d) \<longrightarrow>
      list_all (\<lambda>c'. attempts c' \<le> 5) (otps (snd (verify_otp H ph x nm em rl now d)))
      \<and> list_all (\<lambda>c'. attempts c' \<le> 5) (otps (snd (request_otp H ph x now d))))"
  unfolding list_all_iff
  using request_otp_attempts_le [of d H ph x now] verify_otp_exceeded [of ph d i c now H x nm em rl]
    verify_all_exceeded [of ph d i c reqs H]
    verify_otp_mismatch [of ph d i c now H x nm em rl]
    latest_otp_Some [of ph "otps d" i c]
    verify_otp_attempts_le [of d H ph x nm em rl now]
  by blast

theorem otp_attempts_exceeded_terminal_witness:
  "latest_otp ''9999999999'' (otps (empty_db\<lparr>otps := [sample_otp 5]\<rparr>)) = Some (0, sample_otp 5)
   \<and> \<not> expires_at (sample_otp 5) < 1000 \<and> 5 \<le> attempts (sample_otp 5)
   \<and> (\<lambda>s. s) ''123456'' = code_hash (sample_otp 5)
   \<and> verify_otp (\<lambda>s. s) ''9999999999'' ''123456'' None None ''customer'' 1000
        (empty_db\<lparr>otps := [sample_otp 5]\<rparr>)
      = (Inl (429, ''otp_attempts_exceeded''), empty_db\<lparr>otps := [sample_otp 5]\<rparr>)
   \<and> verify_all (\<lambda>s. s) ''9999999999'' [(''000000'', 1000), (''123456'', 2000)]
        (empty_db\<lparr>otps := [sample_otp 5]\<rparr>)
      = ([Inl (429, ''otp_attempts_exceeded''), Inl (429, ''otp_attempts_exceeded'')],
         empty_db\<lparr>otps := [sample_otp 5]\<rparr>)
   \<and> latest_otp ''9999999999'' (otps (empty_db\<lparr>otps := [sample_otp 4]\<rparr>)) = Some (0, sample_otp 4)
   \<and> attempts (sample_otp 4) < 5 \<and> (\<lambda>s. s) ''000000'' \<noteq> code_hash (sample_otp 4)
   \<and> verify_otp (\<lambda>s. s) ''9999999999'' ''000000'' None None ''customer'' 1000
        (empty_db\<lparr>otps := [sample_otp 4]\<rparr>)
      = (Inl (400, ''otp_invalid''), empty_db\<lparr>otps := [sample_otp 5]\<rparr>)
   \<and> list_all (\<lambda>c'. attempts c' \<le> 5) (otps (empty_db\<lparr>otps := [sample_otp 4]\<rparr>))
   \<and> list_all (\<lambda>c'. attempts c' \<le> 5) (otps (snd (verify_otp (\<lambda>s. s) ''9999999999''
          ''000000'' None None ''customer'' 1000 (empty_db\<lparr>otps := [sample_otp 4]\<rparr>))))
   \<and> list_all (\<lambda>c'. attempts c' \<le> 5) (otps (snd (request_otp (\<lambda>s. s) ''9999999999''
          ''000000'' 1000 (empty_db\<lparr>otps := [sample_otp 4]\<rparr>))))"
  using otp_attempts_exceeded_terminal [where ph = "''9999999999''"
      and d = "empty_db\<lparr>otps := [sample_otp 5]\<rparr>" and i = 0 and c = "sample_otp 5"
      and now = 1000 and H = "\<lambda>s. s" and x = "''123456''" and nm = None and em = None
      and rl = "''customer''" and reqs = "[(''000000'', 1000), (''123456'', 2000)]"]
    otp_attempts_exceeded_terminal [where ph = "''9999999999''"
      and d = "empty_db\<lparr>otps := [sample_otp 4]\<rparr>" and i = 0 and c = "sample_otp 4"
      and now = 1000 and H = "\<lambda>s. s" and x = "''000000''" and nm = None and em = None
      and rl = "''customer''" and reqs = "[]"]
  by (simp add: latest_otp_def sample_otp_def empty_db_def)

section \<open>Properties: booking creation\<close>

lemma create_booking_cases:
  "(\<exists>cp. findById (req_customer_id r) (profiles d) = Some cp
      \<and> (0 < num_or0 (req_wallet_amount r) \<longrightarrow> num_or0 (req_wallet_amount r) \<le> wallet_balance cp)
      \<and> create_booking r d = (Inr (length (bookings d)), commit_booking r cp d))
   \<or> (\<exists>e. create_booking r d = (Inl e, d))"
  by (auto simp: create_booking_def Let_def split: option.splits)

lemma create_booking_Inr:
  assumes "create_booking r d = (Inr bid, d')"
  shows "bid = length (bookings d)" and "\<exists>cp. d' = commit_booking r cp d"
  using assms create_booking_cases [of r d] by auto

lemma bookings_commit_booking:
  "\<exists>ps pm. bookings (commit_booking r cp d) =
     bookings d @ [(created_booking r)\<lparr>payment_status := ps, payment_method := pm\<rparr>]"
proof (cases "0 < num_or0 (req_wallet_amount r) \<and> computedTotal r = 0")
  case True
  then have "bookings (commit_booking r cp d) =
     bookings d @ [(created_booking r)\<lparr>payment_status := ''paid'', payment_method := ''wallet''\<rparr>]"
    by (simp add: commit_booking_def pay_from_wallet_def Let_def split: option.splits)
  then show ?thesis by blast
next
  case False
  then have "bookings (commit_booking r cp d) = bookings d @ [created_booking r]"
    by (auto simp: commit_booking_def pay_from_wallet_def Let_def split: option.splits)
  then have "bookings (commit_booking r cp d) =
     bookings d @ [(created_booking r)\<lparr>payment_status := payment_status (created_booking r),
        payment_method := payment_method (created_booking r)\<rparr>]"
    by simp
  then show ?thesis by blast
qed

lemma computedTotal_nonneg: "0 \<le> computedTotal r"
  by (simp add: computedTotal_def)

lemma ignore_total_parts:
  "subtotalAfterDiscount (r\<lparr>req_total_price := t\<rparr>) = subtotalAfterDiscount r"
  "computedTotal (r\<lparr>req_total_price := t\<rparr>) = computedTotal r"
  "created_booking (r\<lparr>req_total_price := t\<rparr>) = created_booking r"
  "pay_from_wallet (r\<lparr>req_total_price := t\<rparr>) = pay_from_wallet r"
  by (simp_all add: created_booking_def pay_from_wallet_def computedTotal_def
      subtotalAfterDiscount_def fun_eq_iff Let_def)

lemma commit_booking_ignores_total:
  "commit_booking (r\<lparr>req_total_price := t\<rparr>) cp d = commit_booking r cp d"
  by (simp add: commit_booking_def ignore_total_parts)

lemma create_booking_ignores_total:
  "create_booking (r\<lparr>req_total_price := t\<rparr>) d = create_booking r d"
  by (auto simp: create_booking_def ignore_total_parts commit_booking_ignores_total Let_def
      split: option.splits)

text \<open>
  C1. A created booking stores the four price components \<open>Number(...) || 0\<close> of the
  request and the total \<open>max(0, max(0, base + addon - discount) - wallet)\<close> computed
  from them, which is never negative; the total the client submits has no effect on
  the response or on the store.
\<close>

theorem create_booking_total_price:
  "(create_booking r d = (Inr bid, d') \<longrightarrow>
      bid = length (bookings d) \<and> length (bookings d') = Suc bid
      \<and> base_price (bookings d' ! bid) = num_or0 (req_base_price r)
      \<and> addon_price (bookings d' ! bid) = num_or0 (req_addon_price r)
      \<and> discount_amount (bookings d' ! bid) = num_or0 (req_discount_amount r)
      \<and> wallet_amount (bookings d' ! bid) = num_or0 (req_wallet_amount r)
      \<and> total_price (bookings d' ! bid) =
          max 0 (max 0 (base_price (bookings d' ! bid) + addon_price (bookings d' ! bid)
                        - discount_amount (bookings d' ! bid))
                 - wallet_amount (bookings d' ! bid))
      \<and> 0 \<le> total_price (bookings d' ! bid))
   \<and> create_booking (r\<lparr>req_total_price := t\<rparr>) d = create_booking r d"
proof -
  have "bid = length (bookings d) \<and> length (bookings d') = Suc bid
      \<and> base_price (bookings d' ! bid) = num_or0 (req_base_price r)
      \<and> addon_price (bookings d' ! bid) = num_or0 (req_addon_price r)
      \<and> discount_amount (bookings d' ! bid) = num_or0 (req_discount_amount r)
      \<and> wallet_amount (bookings d' ! bid) = num_or0 (req_wallet_amount r)
      \<and> total_price (bookings d' ! bid) = computedTotal r"
    if ok: "create_booking r d = (Inr bid, d')"
  proof -
    from create_booking_Inr [OF ok] obtain cp where b: "bid = length (bookings d)"
      and d': "d' = commit_booking r cp d" by blast
    from bookings_commit_booking [of r cp d] obtain ps pm where
      bs: "bookings d' = bookings d @ [(created_booking r)\<lparr>payment_status := ps, payment_method := pm\<rparr>]"
      unfolding d' by blast
    show ?thesis
      unfolding bs using b by (simp add: created_booking_def)
  qed
  then show ?thesis
    using create_booking_ignores_total [where r = r and t = t and d = d]
      computedTotal_nonneg [of r]
    by (auto simp: computedTotal_def subtotalAfterDiscount_def)
qed

theorem create_booking_total_price_witness:
  "create_booking sample_body (empty_db\<lparr>profiles := [sample_customer 0]\<rparr>)
     = (Inr 0, empty_db\<lparr>profiles := [sample_customer 0], bookings := [created_booking sample_body]\<rparr>)
   \<and> req_total_price sample_body = 1
   \<and> total_price (created_booking sample_body) = 550"
  using create_booking_total_price [where r = sample_body
      and d = "empty_db\<lparr>profiles := [sample_customer 0]\<rparr>" and bid = 0
      and d' = "empty_db\<lparr>profiles := [sample_customer 0], bookings := [created_booking sample_body]\<rparr>"
      and t = 1]
  by (simp add: create_booking_def commit_booking_def pay_from_wallet_def count_promo_use_def
      find_slot_def findOne_def findById_def sample_body_def sample_customer_def new_profile_def
      empty_db_def created_booking_def computedTotal_def subtotalAfterDiscount_def num_or0_def
      Let_def)

section \<open>Properties: slot capacity\<close>























section \<open>Properties: auto-assignment\<close>



















section \<open>Properties: online payments\<close>

lemma verify_payment_paid:
  assumes "razorpay g" and "findById bid (bookings d) = Some b"
    and "createHmac g (RAZORPAY_KEY_SECRET g) (oid @ ''|'' @ pid) = sg"
    and "payments_fetch g pid = Some (ps, amt)"
    and "ps = ''captured'' \<or> ps = ''authorized''"
    and "\<not> \<bar>fsub ar (fdiv ar amt 100) (total_price b)\<bar> > double_0_01"
  shows "verify_payment ar g oid pid sg bid d =
           (Inr (fdiv ar amt 100), d\<lparr>bookings := (bookings d)[bid :=
              b\<lparr>payment_status := ''paid'', status := ''confirmed''\<rparr>]\<rparr>)"
  using assms by (auto simp: verify_payment_def Let_def)

lemma webhook_object_body:
  "snd (payments_webhook g parser hdr ObjectBody d) = d"
  "fst (payments_webhook g parser hdr ObjectBody d) \<noteq> Inr ()"
  "snd (payments_webhook g parser hdr NoBody d) = d"
  "fst (payments_webhook g parser hdr NoBody d) \<noteq> Inr ()"
  by (simp_all add: payments_webhook_def body_toString_def JSON_parse_def)

text \<open>
  C10. The claim holds of \<open>POST /payments/verify\<close> and fails on the webhook. A
  verified payment stores \<open>payment_status = paid\<close> and \<open>status = confirmed\<close> in a
  booking that was completed. A \<open>payment.captured\<close> event delivered to the webhook
  arrives as the object \<open>express.json\<close> has parsed: with the signature of the
  text that was sent the handler answers \<open>invalid_signature\<close>, with the signature
  of \<open>[object Object]\<close> it answers \<open>webhook_error\<close>, and in both cases the booking
  keeps \<open>payment_status = unpaid\<close> and \<open>status = pending\<close>, even with a parser that
  would read the event out of any text.
\<close>

theorem webhook_event_not_processed:
  "verify_payment exact_arith sample_gateway ''order_1'' ''pay_1'' ''k1order_1|pay_1'' 0
        (empty_db\<lparr>bookings := [sample_booking ''completed'' None]\<rparr>)
      = (Inr 550, empty_db\<lparr>bookings := [(sample_booking ''completed'' None)\<lparr>payment_status := ''paid'',
           status := ''confirmed''\<rparr>]\<rparr>)
   \<and> ''confirmed'' \<notin> set lifecycle_states
   \<and> payments_webhook sample_gateway
        (\<lambda>t. Some \<lparr>eventType = ''payment.captured'',
           entity_payment = Some \<lparr>wh_notes_booking_id = Some 0\<rparr>\<rparr>)
        (Some (createHmac sample_gateway (RAZORPAY_WEBHOOK_SECRET sample_gateway)
           ''the event as sent''))
        ObjectBody (empty_db\<lparr>bookings := [sample_booking ''pending'' None]\<rparr>)
      = (Inl (400, ''invalid_signature''), empty_db\<lparr>bookings := [sample_booking ''pending'' None]\<rparr>)
   \<and> payments_webhook sample_gateway
        (\<lambda>t. Some \<lparr>eventType = ''payment.captured'',
           entity_payment = Some \<lparr>wh_notes_booking_id = Some 0\<rparr>\<rparr>)
        (Some (createHmac sample_gateway (RAZORPAY_WEBHOOK_SECRET sample_gateway)
           ''[object Object]''))
        ObjectBody (empty_db\<lparr>bookings := [sample_booking ''pending'' None]\<rparr>)
      = (Inl (500, ''webhook_error''), empty_db\<lparr>bookings := [sample_booking ''pending'' None]\<rparr>)
   \<and> status (sample_booking ''pending'' None) = ''pending''
   \<and> payment_status (sample_booking ''pending'' None) = ''unpaid''"
  by (simp add: verify_payment_def payments_webhook_def body_toString_def JSON_parse_def
      double_0_01_def lifecycle_states_def exact_arith_def sample_gateway_def findById_def
      sample_booking_def created_booking_def sample_body_def computedTotal_def
      subtotalAfterDiscount_def num_or0_def empty_db_def Let_def)

section \<open>Properties: wallet ledger\<close>

lemma wallet_credit:
  assumes "findById uid (profiles d) = Some p" and "0 < a" and "sanitizeInput descr \<noteq> []"
  shows "add_wallet_transaction uid (Some a) ''credit'' descr bk d =
     (Inr \<lparr>user_id = uid, amount = a, transaction_type = ''credit'',
            description = sanitizeInput descr, tx_booking_id = bk\<rparr>,
      d\<lparr>wallet_transactions := wallet_transactions d @
           [\<lparr>user_id = uid, amount = a, transaction_type = ''credit'',
             description = sanitizeInput descr, tx_booking_id = bk\<rparr>],
        profiles := (profiles d)[uid := p\<lparr>wallet_balance := wallet_balance p + a\<rparr>]\<rparr>)"
proof -
  from assms(3) have "descr \<noteq> []" by (auto simp: sanitizeInput_def trim_def)
  with assms show ?thesis by (simp add: add_wallet_transaction_def num_or0_def Let_def)
qed

lemma wallet_debit_refund:
  assumes "findById uid (profiles d) = Some p" and "0 < a" and "sanitizeInput descr \<noteq> []"
    and "ttype = ''debit'' \<or> ttype = ''refund''" and "a \<le> wallet_balance p"
  shows "add_wallet_transaction uid (Some a) ttype descr bk d =
     (Inr \<lparr>user_id = uid, amount = a, transaction_type = ttype,
            description = sanitizeInput descr, tx_booking_id = bk\<rparr>,
      d\<lparr>wallet_transactions := wallet_transactions d @
           [\<lparr>user_id = uid, amount = a, transaction_type = ttype,
             description = sanitizeInput descr, tx_booking_id = bk\<rparr>],
        profiles := (profiles d)[uid := p\<lparr>wallet_balance := wallet_balance p - a\<rparr>]\<rparr>)"
proof -
  from assms(3) have "descr \<noteq> []" by (auto simp: sanitizeInput_def trim_def)
  with assms show ?thesis by (auto simp: add_wallet_transaction_def num_or0_def Let_def)
qed

lemma wallet_insufficient:
  assumes "findById uid (profiles d) = Some p" and "0 < a" and "descr \<noteq> []"
    and "ttype = ''debit'' \<or> ttype = ''refund''" and "wallet_balance p < a"
  shows "add_wallet_transaction uid (Some a) ttype descr bk d = (Inl (400, ''insufficient_balance''), d)"
  using assms by (auto simp: add_wallet_transaction_def num_or0_def Let_def)

lemma wallet_blank_description:
  assumes "findById uid (profiles d) = Some p" and "0 < a" and "descr \<noteq> []"
    and "sanitizeInput descr = []"
    and "ttype = ''credit'' \<or> ((ttype = ''debit'' \<or> ttype = ''refund'') \<and> a \<le> wallet_balance p)"
  shows "add_wallet_transaction uid (Some a) ttype descr bk d = (Inl (500, ''server_error''), d)"
  using assms by (auto simp: add_wallet_transaction_def num_or0_def Let_def)

lemma wallet_failure_unchanged:
  "fst (add_wallet_transaction uid amt ttype descr bk d) = Inl e \<Longrightarrow>
   snd (add_wallet_transaction uid amt ttype descr bk d) = d"
  by (auto simp: add_wallet_transaction_def Let_def split: option.splits if_splits)

lemma create_failure_unchanged:
  "fst (create_booking r d) = Inl e \<Longrightarrow> snd (create_booking r d) = d"
  using create_booking_cases [of r d] by auto

lemma wallet_nonneg:
  assumes "list_all (\<lambda>p. 0 \<le> wallet_balance p) (profiles d)"
  shows "list_all (\<lambda>p. 0 \<le> wallet_balance p) (profiles (snd (add_wallet_transaction uid amt ttype descr bk d)))"
proof (cases "fst (add_wallet_transaction uid amt ttype descr bk d)")
  case (Inl e)
  from wallet_failure_unchanged [OF this] assms show ?thesis by simp
next
  case (Inr t)
  then obtain p a where h: "findById uid (profiles d) = Some p" "amt = Some a" "0 < a"
    and nn: "ttype \<noteq> ''credit'' \<longrightarrow> 0 \<le> wallet_balance p - a"
    and ps: "profiles (snd (add_wallet_transaction uid amt ttype descr bk d)) =
       (profiles d)[uid := p\<lparr>wallet_balance :=
          (if ttype = ''credit'' then wallet_balance p + a else wallet_balance p - a)\<rparr>]"
    by (auto simp: add_wallet_transaction_def num_or0_def Let_def split: option.splits if_splits)
  from findById_Some [OF h(1)] assms have "0 \<le> wallet_balance p" by (auto simp: list_all_iff)
  with h(3) nn have "0 \<le> wallet_balance (p\<lparr>wallet_balance :=
          (if ttype = ''credit'' then wallet_balance p + a else wallet_balance p - a)\<rparr>)"
    by simp
  from list_all_update [of "\<lambda>p. 0 \<le> wallet_balance p", OF assms this] show ?thesis
    unfolding ps .
qed

lemma profiles_commit_booking:
  "profiles (commit_booking r cp d) =
     (if 0 < num_or0 (req_wallet_amount r)
      then (profiles d)[req_customer_id r :=
              cp\<lparr>wallet_balance := wallet_balance cp - num_or0 (req_wallet_amount r)\<rparr>]
      else profiles d)"
  by (simp add: commit_booking_def pay_from_wallet_def Let_def split: option.splits)

lemma create_booking_wallet_nonneg:
  assumes "list_all (\<lambda>p. 0 \<le> wallet_balance p) (profiles d)"
  shows "list_all (\<lambda>p. 0 \<le> wallet_balance p) (profiles (snd (create_booking r d)))"
proof -
  from create_booking_cases [of r d] show ?thesis
  proof
    assume "\<exists>cp. findById (req_customer_id r) (profiles d) = Some cp
      \<and> (0 < num_or0 (req_wallet_amount r) \<longrightarrow> num_or0 (req_wallet_amount r) \<le> wallet_balance cp)
      \<and> create_booking r d = (Inr (length (bookings d)), commit_booking r cp d)"
    then obtain cp where cp: "findById (req_customer_id r) (profiles d) = Some cp"
      and le: "0 < num_or0 (req_wallet_amount r) \<longrightarrow> num_or0 (req_wallet_amount r) \<le> wallet_balance cp"
      and ok: "create_booking r d = (Inr (length (bookings d)), commit_booking r cp d)" by blast
    show ?thesis
    proof (cases "0 < num_or0 (req_wallet_amount r)")
      case False
      with ok assms show ?thesis by (simp add: profiles_commit_booking)
    next
      case True
      with le have "0 \<le> wallet_balance (cp\<lparr>wallet_balance :=
              wallet_balance cp - num_or0 (req_wallet_amount r)\<rparr>)" by simp
      from list_all_update [of "\<lambda>p. 0 \<le> wallet_balance p", OF assms this] ok True
      show ?thesis by (simp add: profiles_commit_booking)
    qed
  next
    assume "\<exists>e. create_booking r d = (Inl e, d)"
    with assms show ?thesis by auto
  qed
qed

text \<open>
  C8, as the claim states it, fails: a refund of 30 on a balance of 100 leaves 70.
\<close>

theorem refund_decreases_balance_counterexample:
  "wallet_balance (sample_customer 100) = 100
   \<and> fst (add_wallet_transaction 0 (Some 30) ''refund'' ''goodwill'' None
        (empty_db\<lparr>profiles := [sample_customer 100]\<rparr>))
      = Inr \<lparr>user_id = 0, amount = 30, transaction_type = ''refund'', description = ''goodwill'',
             tx_booking_id = None\<rparr>
   \<and> wallet_balance (profiles (snd (add_wallet_transaction 0 (Some 30) ''refund'' ''goodwill'' None
        (empty_db\<lparr>profiles := [sample_customer 100]\<rparr>))) ! 0) = 70"
  by (simp add: add_wallet_transaction_def sanitizeInput_def trim_def is_space_def findById_def
      num_or0_def empty_db_def sample_customer_def new_profile_def Let_def)

text \<open>
  C8, amended. For a description in ASCII that is not blank after sanitizing, a
  credit adds the amount to the balance and a debit and a refund both subtract it;
  the transaction stores the sanitized description. A debit or refund that exceeds
  the balance is rejected with \<open>insufficient_balance\<close>, and a description that
  sanitizing leaves empty with \<open>server_error\<close>, nothing written. A rejected wallet
  transaction or booking leaves the store as it was, and neither request takes a
  balance that is not negative below zero.
\<close>

theorem wallet_balance_update:
  "(findById uid (profiles d) = Some p \<and> 0 < a \<and> ascii_text descr \<and> sanitizeInput descr \<noteq> [] \<longrightarrow>
      add_wallet_transaction uid (Some a) ''credit'' descr bk d =
        (Inr \<lparr>user_id = uid, amount = a, transaction_type = ''credit'',
               description = sanitizeInput descr, tx_booking_id = bk\<rparr>,
         d\<lparr>wallet_transactions := wallet_transactions d @
             [\<lparr>user_id = uid, amount = a, transaction_type = ''credit'',
               description = sanitizeInput descr, tx_booking_id = bk\<rparr>],
          profiles := (profiles d)[uid := p\<lparr>wallet_balance := wallet_balance p + a\<rparr>]\<rparr>))
   \<and> (findById uid (profiles d) = Some p \<and> 0 < a \<and> ascii_text descr \<and> sanitizeInput descr \<noteq> []
        \<and> (ttype = ''debit'' \<or> ttype = ''refund'') \<and> a \<le> wallet_balance p \<longrightarrow>
      add_wallet_transaction uid (Some a) ttype descr bk d =
        (Inr \<lparr>user_id = uid, amount = a, transaction_type = ttype,
               description = sanitizeInput descr, tx_booking_id = bk\<rparr>,
         d\<lparr>wallet_transactions := wallet_transactions d @
             [\<lparr>user_id = uid, amount = a, transaction_type = ttype,
               description = sanitizeInput descr, tx_booking_id = bk\<rparr>],
          profiles := (profiles d)[uid := p\<lparr>wallet_balance := wallet_balance p - a\<rparr>]\<rparr>))
   \<and> (findById uid (profiles d) = Some p \<and> 0 < a \<and> descr \<noteq> []
        \<and> (ttype = ''debit'' \<or> ttype = ''refund'') \<and> wallet_balance p < a \<longrightarrow>
      add_wallet_transaction uid (Some a) ttype descr bk d = (Inl (400, ''insufficient_balance''), d))
   \<and> (findById uid (profiles d) = Some p \<and> 0 < a \<and> ascii_text descr \<and> descr \<noteq> []
        \<and> sanitizeInput descr = []
        \<and> (ttype = ''credit'' \<or> ((ttype = ''debit'' \<or> ttype = ''refund'') \<and> a \<le> wallet_balance p)) \<longrightarrow>
      add_wallet_transaction uid (Some a) ttype descr bk d = (Inl (500, ''server_error''), d))
   \<and> (fst (add_wallet_transaction uid amt ttype descr bk d) = Inl e \<longrightarrow>
      snd (add_wallet_transaction uid amt ttype descr bk d) = d)
   \<and> (fst (create_booking r d) = Inl e \<longrightarrow> snd (create_booking r d) = d)
   \<and> (list_all (\<lambda>p. 0 \<le> wallet_balance p) (profiles d) \<longrightarrow>
      list_all (\<lambda>p. 0 \<le> wallet_balance p)
        (profiles (snd (add_wallet_transaction uid amt ttype descr bk d)))
      \<and> list_all (\<lambda>p. 0 \<le> wallet_balance p) (profiles (snd (create_booking r d))))"
  using wallet_credit [of uid d p a descr bk] wallet_debit_refund [of uid d p a descr ttype bk]
    wallet_insufficient [of uid d p a descr ttype bk]
    wallet_blank_description [of uid d p a descr ttype bk]
    wallet_failure_unchanged [of uid amt ttype descr bk d e]
    create_failure_unchanged [of r d e]
    wallet_nonneg [of d uid amt ttype descr bk] create_booking_wallet_nonneg [of d r]
  by simp

theorem wallet_balance_update_witness:
  "findById 0 [sample_customer 100] = Some (sample_customer 100)
   \<and> ascii_text '' top <up> '' \<and> sanitizeInput '' top <up> '' = ''top up''
   \<and> add_wallet_transaction 0 (Some 30) ''credit'' '' top <up> '' None
        (empty_db\<lparr>profiles := [sample_customer 100]\<rparr>)
      = (Inr \<lparr>user_id = 0, amount = 30, transaction_type = ''credit'',
            description = ''top up'', tx_booking_id = None\<rparr>,
         empty_db\<lparr>wallet_transactions := [\<lparr>user_id = 0, amount = 30, transaction_type = ''credit'',
            description = ''top up'', tx_booking_id = None\<rparr>],
          profiles := [sample_customer 130]\<rparr>)
   \<and> ascii_text ''goodwill'' \<and> sanitizeInput ''goodwill'' = ''goodwill''
   \<and> snd (add_wallet_transaction 0 (Some 30) ''refund'' ''goodwill'' None
        (empty_db\<lparr>profiles := [sample_customer 100]\<rparr>))
      = empty_db\<lparr>wallet_transactions := [\<lparr>user_id = 0, amount = 30, transaction_type = ''refund'',
            description = ''goodwill'', tx_booking_id = None\<rparr>],
          profiles := [sample_customer 70]\<rparr>
   \<and> add_wallet_transaction 0 (Some 130) ''debit'' ''charge'' None
        (empty_db\<lparr>profiles := [sample_customer 100]\<rparr>)
      = (Inl (400, ''insufficient_balance''), empty_db\<lparr>profiles := [sample_customer 100]\<rparr>)
   \<and> ascii_text '' <> '' \<and> sanitizeInput '' <> '' = []
   \<and> add_wallet_transaction 0 (Some 30) ''credit'' '' <> '' None
        (empty_db\<lparr>profiles := [sample_customer 100]\<rparr>)
      = (Inl (500, ''server_error''), empty_db\<lparr>profiles := [sample_customer 100]\<rparr>)
   \<and> fst (create_booking (sample_body\<lparr>req_wallet_amount := Some 120\<rparr>)
        (empty_db\<lparr>profiles := [sample_customer 100]\<rparr>))
      = Inl (400, ''insufficient_wallet_balance'')
   \<and> snd (create_booking (sample_body\<lparr>req_wallet_amount := Some 120\<rparr>)
        (empty_db\<lparr>profiles := [sample_customer 100]\<rparr>))
      = empty_db\<lparr>profiles := [sample_customer 100]\<rparr>
   \<and> list_all (\<lambda>p. 0 \<le> wallet_balance p) (profiles (empty_db\<lparr>profiles := [sample_customer 100]\<rparr>))
   \<and> list_all (\<lambda>p. 0 \<le> wallet_balance p) (profiles (snd (create_booking
        (sample_body\<lparr>req_wallet_amount := Some 100\<rparr>)
        (empty_db\<lparr>profiles := [sample_customer 100]\<rparr>))))"
  using wallet_balance_update [where uid = 0 and d = "empty_db\<lparr>profiles := [sample_customer 100]\<rparr>"
      and p = "sample_customer 100" and a = 30 and descr = "'' top <up> ''" and bk = None
      and ttype = "''credit''" and r = "sample_body\<lparr>req_wallet_amount := Some 120\<rparr>"
      and e = "(400, ''insufficient_wallet_balance'')"]
    wallet_balance_update [where uid = 0 and d = "empty_db\<lparr>profiles := [sample_customer 100]\<rparr>"
      and p = "sample_customer 100" and a = 30 and descr = "''goodwill''" and bk = None
      and ttype = "''refund''" and r = "sample_body\<lparr>req_wallet_amount := Some 100\<rparr>"]
    wallet_balance_update [where uid = 0 and d = "empty_db\<lparr>profiles := [sample_customer 100]\<rparr>"
      and p = "sample_customer 100" and a = 130 and descr = "''charge''" and bk = None
      and ttype = "''debit''"]
    wallet_balance_update [where uid = 0 and d = "empty_db\<lparr>profiles := [sample_customer 100]\<rparr>"
      and p = "sample_customer 100" and a = 30 and descr = "'' <> ''" and bk = None
      and ttype = "''credit''"]
  by (simp add: findById_def empty_db_def sample_customer_def new_profile_def sample_body_def
      create_booking_def find_slot_def findOne_def num_or0_def sanitizeInput_def trim_def
      is_space_def ascii_text_def)

section \<open>Properties: promo codes\<close>

lemma promos_commit_booking:
  "promos (commit_booking r cp d) = count_promo_use (req_promo_code r) (promos d)"
  by (simp add: commit_booking_def pay_from_wallet_def Let_def split: option.splits)

lemma count_promo_use_found:
  assumes "c \<noteq> []" and "findOne (\<lambda>p. code p = trim (toUpperCase c)) ps = Some (i, p)"
  shows "count_promo_use (Some c) ps = ps[i := p\<lparr>usage_count := usage_count p + 1\<rparr>]"
  using assms by (simp add: count_promo_use_def)

lemma count_promo_use_steps:
  "list_all2 (\<lambda>p q. usage_count p \<le> usage_count q \<and> usage_count q \<le> usage_count p + 1
      \<and> max_usage q = max_usage p \<and> code q = code p)
     ps (count_promo_use pc ps)"
proof (cases "\<exists>c i p. pc = Some c \<and> c \<noteq> [] \<and> findOne (\<lambda>p. code p = trim (toUpperCase c)) ps = Some (i, p)")
  case True
  then obtain c i p where h: "pc = Some c" "c \<noteq> []"
    "findOne (\<lambda>p. code p = trim (toUpperCase c)) ps = Some (i, p)" by blast
  from findOne_Some [OF h(3)] have ip: "i < length ps" "ps ! i = p" by simp_all
  have "count_promo_use pc ps = ps[i := p\<lparr>usage_count := usage_count p + 1\<rparr>]"
    using h by (simp add: count_promo_use_found)
  then show ?thesis using ip
    by (auto simp: list_all2_conv_all_nth nth_list_update)
next
  case False
  then have "count_promo_use pc ps = ps"
    by (auto simp: count_promo_use_def split: option.splits)
  then show ?thesis by (simp add: list_all2_conv_all_nth)
qed

lemma create_booking_promo_counted:
  assumes "fst (create_booking r d) = Inr bid" and "req_promo_code r = Some c" and "c \<noteq> []"
    and "findOne (\<lambda>p. code p = trim (toUpperCase c)) (promos d) = Some (i, p)"
  shows "promos (snd (create_booking r d)) = (promos d)[i := p\<lparr>usage_count := usage_count p + 1\<rparr>]"
  using create_booking_cases [of r d] assms
  by (auto simp: promos_commit_booking count_promo_use_found)

lemma create_booking_promo_steps:
  "list_all2 (\<lambda>p q. usage_count p \<le> usage_count q \<and> usage_count q \<le> usage_count p + 1
      \<and> max_usage q = max_usage p \<and> code q = code p)
     (promos d) (promos (snd (create_booking r d)))"
proof -
  from create_booking_cases [of r d] show ?thesis
  proof
    assume "\<exists>cp. findById (req_customer_id r) (profiles d) = Some cp
      \<and> (0 < num_or0 (req_wallet_amount r) \<longrightarrow> num_or0 (req_wallet_amount r) \<le> wallet_balance cp)
      \<and> create_booking r d = (Inr (length (bookings d)), commit_booking r cp d)"
    then show ?thesis using count_promo_use_steps [of "promos d" "req_promo_code r"]
      by (auto simp: promos_commit_booking)
  next
    assume "\<exists>e. create_booking r d = (Inl e, d)"
    then show ?thesis by (auto simp: list_all2_conv_all_nth)
  qed
qed

lemma validate_promo_limit:
  assumes "c \<noteq> []" and "trim c \<noteq> []"
    and "findOne (\<lambda>p. code p = trim (toUpperCase c) \<and> promo_is_active p) (promos d) = Some (i, p)"
    and "valid_until p = None \<or> (\<exists>t. valid_until p = Some t \<and> now \<le> t)"
    and "valid_from p = None \<or> (\<exists>t. valid_from p = Some t \<and> t \<le> now)"
    and "orderValue = Some v" and "min_order_value p \<le> v"
    and "max_usage p = Some m" and "m \<noteq> 0" and "m \<le> usage_count p"
  shows "validate_promo (Some c) orderValue now d = Inl (400, ''usage_limit_exceeded'')"
  using assms by (auto simp: validate_promo_def)

text \<open>
  C4, as the claim states it, fails: a booking that names a promo code whose
  \<open>usage_count\<close> has reached \<open>max_usage = 1\<close> is created, and the count becomes 2.
\<close>

theorem promo_usage_exceeds_max_counterexample:
  "max_usage (sample_promo 1 (Some 1)) = Some 1
   \<and> usage_count (sample_promo 1 (Some 1)) = 1
   \<and> fst (create_booking (sample_body\<lparr>req_promo_code := Some ''save10 ''\<rparr>)
        (empty_db\<lparr>profiles := [sample_customer 0], promos := [sample_promo 1 (Some 1)]\<rparr>)) = Inr 0
   \<and> promos (snd (create_booking (sample_body\<lparr>req_promo_code := Some ''save10 ''\<rparr>)
        (empty_db\<lparr>profiles := [sample_customer 0], promos := [sample_promo 1 (Some 1)]\<rparr>)))
      = [sample_promo 2 (Some 1)]"
  by (simp add: create_booking_def commit_booking_def pay_from_wallet_def count_promo_use_def
      find_slot_def findOne_def findById_def sample_body_def sample_customer_def new_profile_def
      sample_promo_def empty_db_def num_or0_def trim_def toUpperCase_def upper_char_def
      is_space_def Let_def)

text \<open>
  C4, amended. A successful booking creation whose \<open>promo_code\<close>, upper-cased and
  trimmed, is the code of a stored promo adds exactly 1 to that promo's
  \<open>usage_count\<close> and changes no other promo; no booking creation lowers a count,
  raises one by more than 1 or changes \<open>max_usage\<close>. Booking creation does not read
  \<open>max_usage\<close>: the cap is checked by \<open>GET /promo/validate\<close> alone, which answers
  \<open>usage_limit_exceeded\<close> for an active code inside its window and above its minimum
  order when \<open>max_usage\<close> is set, not zero and reached.
\<close>

theorem promo_usage_counted:
  "(fst (create_booking r d) = Inr bid \<and> req_promo_code r = Some c \<and> c \<noteq> []
      \<and> findOne (\<lambda>p. code p = trim (toUpperCase c)) (promos d) = Some (i, p) \<longrightarrow>
    promos (snd (create_booking r d)) = (promos d)[i := p\<lparr>usage_count := usage_count p + 1\<rparr>])
   \<and> list_all2 (\<lambda>p q. usage_count p \<le> usage_count q \<and> usage_count q \<le> usage_count p + 1
         \<and> max_usage q = max_usage p \<and> code q = code p)
       (promos d) (promos (snd (create_booking r d)))
   \<and> (c \<noteq> [] \<and> trim c \<noteq> []
      \<and> findOne (\<lambda>p. code p = trim (toUpperCase c) \<and> promo_is_active p) (promos d) = Some (i, p)
      \<and> (valid_until p = None \<or> (\<exists>t. valid_until p = Some t \<and> now \<le> t))
      \<and> (valid_from p = None \<or> (\<exists>t. valid_from p = Some t \<and> t \<le> now))
      \<and> orderValue = Some v \<and> min_order_value p \<le> v
      \<and> max_usage p = Some m \<and> m \<noteq> 0 \<and> m \<le> usage_count p \<longrightarrow>
    validate_promo (Some c) orderValue now d = Inl (400, ''usage_limit_exceeded''))"
  using create_booking_promo_counted [of r d bid c i p] create_booking_promo_steps [of d r]
    validate_promo_limit [where c = c and i = i and p = p and d = d and now = now
      and orderValue = orderValue and v = v and m = m]
  by blast

theorem promo_usage_counted_witness:
  "fst (create_booking (sample_body\<lparr>req_promo_code := Some ''save10 ''\<rparr>)
        (empty_db\<lparr>profiles := [sample_customer 0], promos := [sample_promo 0 (Some 1)]\<rparr>)) = Inr 0
   \<and> findOne (\<lambda>p. code p = trim (toUpperCase ''save10 '')) [sample_promo 0 (Some 1)]
      = Some (0, sample_promo 0 (Some 1))
   \<and> promos (snd (create_booking (sample_body\<lparr>req_promo_code := Some ''save10 ''\<rparr>)
        (empty_db\<lparr>profiles := [sample_customer 0], promos := [sample_promo 0 (Some 1)]\<rparr>)))
      = [sample_promo 1 (Some 1)]
   \<and> findOne (\<lambda>p. code p = trim (toUpperCase ''save10 '') \<and> promo_is_active p)
        [sample_promo 1 (Some 1)] = Some (0, sample_promo 1 (Some 1))
   \<and> validate_promo (Some ''save10 '') (Some 500) 5 (empty_db\<lparr>promos := [sample_promo 1 (Some 1)]\<rparr>)
      = Inl (400, ''usage_limit_exceeded'')"
  using promo_usage_counted [where r = "sample_body\<lparr>req_promo_code := Some ''save10 ''\<rparr>"
      and d = "empty_db\<lparr>profiles := [sample_customer 0], promos := [sample_promo 0 (Some 1)]\<rparr>"
      and bid = 0 and c = "''save10 ''" and i = 0 and p = "sample_promo 0 (Some 1)"]
    promo_usage_counted [where d = "empty_db\<lparr>promos := [sample_promo 1 (Some 1)]\<rparr>"
      and c = "''save10 ''" and i = 0 and p = "sample_promo 1 (Some 1)" and now = 5
      and orderValue = "Some 500" and v = 500 and m = 1]
  by (simp add: create_booking_def find_slot_def findOne_def findById_def sample_body_def
      sample_customer_def new_profile_def sample_promo_def empty_db_def num_or0_def trim_def
      toUpperCase_def upper_char_def is_space_def Let_def)

section \<open>Properties: reschedule and worker load\<close>

text \<open>
  C2. The claim holds of the code's intent and fails on the code: a reschedule to a
  full slot answers \<open>slot_unavailable\<close> after the old slot has been released. The
  booking below holds the only place of its morning slot and asks for the evening
  slot, which is full; the request is rejected, the booking keeps its morning date,
  and the morning slot's \<open>booked_count\<close> has gone from 1 to 0.
\<close>

theorem reschedule_rejected_releases_old_slot:
  "booked_count (slots (empty_db\<lparr>bookings := [sample_booking ''pending'' None],
        slots := [sample_slot ''09:00-12:00'' 1 1, sample_slot ''15:00-18:00'' 1 1]\<rparr>) ! 0) = 1
   \<and> reschedule_booking 0 90000000 ''evening''
        (empty_db\<lparr>bookings := [sample_booking ''pending'' None],
           slots := [sample_slot ''09:00-12:00'' 1 1, sample_slot ''15:00-18:00'' 1 1]\<rparr>)
      = (Inl (400, ''slot_unavailable''),
         empty_db\<lparr>bookings := [sample_booking ''pending'' None],
           slots := [sample_slot ''09:00-12:00'' 1 0, sample_slot ''15:00-18:00'' 1 1]\<rparr>)
   \<and> booked_count (slots (snd (reschedule_booking 0 90000000 ''evening''
        (empty_db\<lparr>bookings := [sample_booking ''pending'' None],
           slots := [sample_slot ''09:00-12:00'' 1 1, sample_slot ''15:00-18:00'' 1 1]\<rparr>))) ! 0) = 0"
  by (simp add: reschedule_booking_def release_slot_def find_slot_def findOne_def findById_def
      isServiceable_def DEFAULT_SERVICEABLE_PINCODES_def trim_def is_space_def str_or_def
      timeSlotMap_def start_of_day_def end_of_day_def sample_booking_def sample_slot_def
      sample_body_def created_booking_def empty_db_def Let_def)

text \<open>
  C3. The claim holds of \<open>complete\<close> and of \<open>PATCH /bookings/:id/status\<close>, which count
  the four active statuses after the write, and fails on auto-assign and cancel,
  which count \<open>assigned\<close> and \<open>in_progress\<close> only, cancel before the booking is saved.
  Below, a worker with one accepted booking is auto-assigned a second one (whatever
  the arithmetic of the scores) and is left with \<open>current_jobs = 1\<close> against two active
  bookings; a worker whose only booking is
  cancelled is left with \<open>current_jobs = 1\<close> against none.
\<close>

theorem current_jobs_miscounted:
  "fst (auto_assign ar 1 5 (empty_db\<lparr>profiles := [sample_worker ''273001'' 4 1],
        bookings := [sample_booking ''accepted'' (Some 0), sample_booking ''pending'' None]\<rparr>))
      = Inr ((sample_booking ''pending'' None)\<lparr>employee_id := Some 0, status := ''assigned'',
               assigned_at := Some 5\<rparr>)
   \<and> current_jobs (profiles (snd (auto_assign ar 1 5
        (empty_db\<lparr>profiles := [sample_worker ''273001'' 4 1],
           bookings := [sample_booking ''accepted'' (Some 0), sample_booking ''pending'' None]\<rparr>))) ! 0) = 1
   \<and> countDocuments 0 active_statuses (bookings (snd (auto_assign ar 1 5
        (empty_db\<lparr>profiles := [sample_worker ''273001'' 4 1],
           bookings := [sample_booking ''accepted'' (Some 0), sample_booking ''pending'' None]\<rparr>)))) = 2
   \<and> status (bookings (snd (cancel_booking 0 None None 5
        (empty_db\<lparr>profiles := [sample_worker ''273001'' 4 1],
           bookings := [sample_booking ''assigned'' (Some 0)]\<rparr>))) ! 0) = ''cancelled''
   \<and> current_jobs (profiles (snd (cancel_booking 0 None None 5
        (empty_db\<lparr>profiles := [sample_worker ''273001'' 4 1],
           bookings := [sample_booking ''assigned'' (Some 0)]\<rparr>))) ! 0) = 1
   \<and> countDocuments 0 active_statuses (bookings (snd (cancel_booking 0 None None 5
        (empty_db\<lparr>profiles := [sample_worker ''273001'' 4 1],
           bookings := [sample_booking ''assigned'' (Some 0)]\<rparr>)))) = 0"
  by (simp add: auto_assign_def cancel_booking_def eligible_workers_def eligible_def
      customerLocation_def recount_jobs_def countDocuments_def set_current_jobs_def
      active_statuses_def release_slot_def find_slot_def findOne_def findById_def
      str_or_def str_or_default_def sample_booking_def sample_worker_def sample_body_def
      created_booking_def new_profile_def empty_db_def Let_def)

section \<open>Properties: terminal statuses\<close>

lemma worker_step_keeps:
  assumes "bid < length (bookings d)"
    and "status (bookings d ! bid) = ''cancelled'' \<or> status (bookings d ! bid) = ''completed''"
  shows "length (bookings (snd (worker_step st t now d))) = length (bookings d)
       \<and> status (bookings (snd (worker_step st t now d)) ! bid) = status (bookings d ! bid)"
proof (cases "t = bid")
  case True
  with assms show ?thesis by (auto simp: worker_step_def findById_def)
next
  case False
  with assms show ?thesis
    by (auto simp: worker_step_def findById_def Let_def)
qed

lemma complete_keeps:
  assumes "bid < length (bookings d)"
    and "status (bookings d ! bid) = ''cancelled'' \<or> status (bookings d ! bid) = ''completed''"
  shows "length (bookings (snd (complete_booking t now d))) = length (bookings d)
       \<and> status (bookings (snd (complete_booking t now d)) ! bid) = status (bookings d ! bid)"
proof (cases "t = bid")
  case True
  with assms show ?thesis
    by (auto simp: complete_booking_def findById_def settle_cod_def recount_jobs_def Let_def
        split: option.splits)
next
  case False
  with assms show ?thesis
    by (auto simp: complete_booking_def findById_def recount_jobs_def Let_def
        split: option.splits)
qed

lemma cancel_keeps:
  assumes "bid < length (bookings d)"
    and "status (bookings d ! bid) = ''cancelled'' \<or> status (bookings d ! bid) = ''completed''"
  shows "length (bookings (snd (cancel_booking t reason who now d))) = length (bookings d)
       \<and> status (bookings (snd (cancel_booking t reason who now d)) ! bid) = status (bookings d ! bid)"
proof (cases "t = bid")
  case True
  with assms show ?thesis by (auto simp: cancel_booking_def findById_def)
next
  case False
  with assms show ?thesis
    by (auto simp: cancel_booking_def findById_def recount_jobs_def Let_def
        split: option.splits)
qed

lemma reschedule_keeps:
  assumes "bid < length (bookings d)"
    and "status (bookings d ! bid) = ''cancelled'' \<or> status (bookings d ! bid) = ''completed''"
  shows "length (bookings (snd (reschedule_booking t nd nt d))) = length (bookings d)
       \<and> status (bookings (snd (reschedule_booking t nd nt d)) ! bid) = status (bookings d ! bid)"
proof (cases "t = bid")
  case True
  with assms show ?thesis by (auto simp: reschedule_booking_def findById_def)
next
  case False
  with assms show ?thesis
    by (auto simp: reschedule_booking_def findById_def Let_def split: option.splits)
qed

lemma serve_guarded_keeps:
  assumes "bid < length (bookings d)"
    and "status (bookings d ! bid) = ''cancelled'' \<or> status (bookings d ! bid) = ''completed''"
  shows "length (bookings (serve_guarded q now d)) = length (bookings d)
       \<and> status (bookings (serve_guarded q now d) ! bid) = status (bookings d ! bid)"
  using assms
  by (cases q)
    (simp_all add: accept_booking_def mark_reached_def start_work_def worker_step_keeps
      complete_keeps cancel_keeps reschedule_keeps)

lemma run_guarded_keeps:
  assumes "bid < length (bookings d)"
    and "status (bookings d ! bid) = ''cancelled'' \<or> status (bookings d ! bid) = ''completed''"
  shows "length (bookings (run_guarded qs d)) = length (bookings d)
       \<and> status (bookings (run_guarded qs d) ! bid) = status (bookings d ! bid)"
  using assms
proof (induction qs arbitrary: d)
  case Nil
  then show ?case by simp
next
  case (Cons a qs)
  obtain q now where a: "a = (q, now)" by (cases a)
  from serve_guarded_keeps [OF Cons.prems, of q now] have
    s: "length (bookings (serve_guarded q now d)) = length (bookings d)"
       "status (bookings (serve_guarded q now d) ! bid) = status (bookings d ! bid)" by simp_all
  from s Cons.prems have p1: "bid < length (bookings (serve_guarded q now d))" by simp
  from s Cons.prems have p2: "status (bookings (serve_guarded q now d) ! bid) = ''cancelled''
     \<or> status (bookings (serve_guarded q now d) ! bid) = ''completed''" by simp
  from Cons.IH [OF p1 p2] s a show ?case by simp
qed

lemma update_status_writes:
  assumes "findById bid (bookings d) = Some b"
  shows "status (bookings (snd (update_status bid st now d)) ! bid) = st"
  using assms findById_Some [OF assms]
  by (auto simp: update_status_def stamp_status_def recount_jobs_def Let_def split: option.splits)

text \<open>
  C9, as the claim states it, fails: \<open>PATCH /bookings/:id/status\<close> takes a completed
  booking back to \<open>pending\<close>.
\<close>

theorem completed_not_absorbing_counterexample:
  "status (bookings (empty_db\<lparr>bookings := [sample_booking ''completed'' None]\<rparr>) ! 0) = ''completed''
   \<and> status (bookings (snd (update_status 0 ''pending'' 5
        (empty_db\<lparr>bookings := [sample_booking ''completed'' None]\<rparr>))) ! 0) = ''pending''"
  by (simp add: update_status_def stamp_status_def populated_employee_def findById_def
      sample_booking_def empty_db_def Let_def)

text \<open>
  C9, amended. No run of accept, mark-reached, start-work, complete, cancel and
  reschedule requests, on whatever bookings, changes the status of a booking that is
  cancelled or completed. \<open>PATCH /bookings/:id/status\<close> has no such guard: it stores
  the status it is given in every booking it finds.
\<close>

theorem terminal_status_guarded:
  "(bid < length (bookings d)
      \<and> (status (bookings d ! bid) = ''cancelled'' \<or> status (bookings d ! bid) = ''completed'') \<longrightarrow>
    length (bookings (run_guarded qs d)) = length (bookings d)
    \<and> status (bookings (run_guarded qs d) ! bid) = status (bookings d ! bid))
   \<and> (findById bid (bookings d) = Some b \<longrightarrow>
    status (bookings (snd (update_status bid st now d)) ! bid) = st)"
  using run_guarded_keeps [of bid d qs] update_status_writes [of bid d b st now]
  by blast

theorem terminal_status_guarded_witness:
  "(0::nat) < length (bookings (empty_db\<lparr>bookings :=
        [sample_booking ''cancelled'' None, sample_booking ''assigned'' None]\<rparr>))
   \<and> status (bookings (empty_db\<lparr>bookings :=
        [sample_booking ''cancelled'' None, sample_booking ''assigned'' None]\<rparr>) ! 0) = ''cancelled''
   \<and> status (bookings (run_guarded
        [(Accept 0, 1), (MarkReached 0, 2), (StartWork 0, 3), (Complete 0, 4),
         (Reschedule 0 90000000 ''evening'', 5), (Cancel 0 None None, 6), (Accept 1, 7)]
        (empty_db\<lparr>bookings :=
          [sample_booking ''cancelled'' None, sample_booking ''assigned'' None]\<rparr>)) ! 0) = ''cancelled''
   \<and> findById 0 [sample_booking ''cancelled'' None, sample_booking ''assigned'' None]
      = Some (sample_booking ''cancelled'' None)
   \<and> status (bookings (snd (update_status 0 ''accepted'' 8 (empty_db\<lparr>bookings :=
        [sample_booking ''cancelled'' None, sample_booking ''assigned'' None]\<rparr>))) ! 0) = ''accepted''"
  using terminal_status_guarded [where bid = 0
      and d = "empty_db\<lparr>bookings :=
        [sample_booking ''cancelled'' None, sample_booking ''assigned'' None]\<rparr>"
      and qs = "[(Accept 0, 1), (MarkReached 0, 2), (StartWork 0, 3), (Complete 0, 4),
         (Reschedule 0 90000000 ''evening'', 5), (Cancel 0 None None, 6), (Accept 1, 7)]"
      and b = "sample_booking ''cancelled'' None" and st = "''accepted''" and now = 8]
  by (simp add: findById_def sample_booking_def empty_db_def)

end
